theory Spec2Isabelle
  imports Main "HOL-Library.Sublist" "HOL-Library.Multiset"
begin

section \<open>Import modals: batch import of regex scripts and import from the global library\<close>

text \<open>
  The development embeds the event handlers of
  \<^verbatim>\<open>src/components/ImportRegexScriptModal.tsx\<close>: \<^verbatim>\<open>handleFilesSelect\<close> (the batch
  import over the selected files) and \<^verbatim>\<open>handleImportFromGlobal\<close> of the regex-script
  modal and of the world-book modal.

  The handlers are asynchronous React callbacks. Each \<^verbatim>\<open>await\<close> is modelled as a call
  that has completed before the next statement runs, which is what \<^verbatim>\<open>await\<close> inside a
  \<^verbatim>\<open>for\<close> loop does. Whatever lives outside the component (the character's script
  collection, the global library) is an explicit state of type \<open>'s\<close> that every
  collaborator call may read and change. A JavaScript exception is a value of type
  \<open>thrown\<close>; a call that may throw returns a sum with \<open>Inl\<close> for the thrown value.
  JavaScript strings are lists of characters. \<^verbatim>\<open>toast\<close> calls and the state setters
  of React return normally; the \<^verbatim>\<open>onImportSuccess\<close> callback may throw, and so may a
  \<^verbatim>\<open>push\<close> whose arguments are spread from an array.
\<close>

subsection \<open>JavaScript values used by the handlers\<close>

text \<open>
  What a \<^verbatim>\<open>catch\<close> clause can receive. The handlers only ask two questions of it:
  \<^verbatim>\<open>error instanceof Error\<close> followed by \<^verbatim>\<open>error.message\<close>, and \<^verbatim>\<open>error.message\<close>
  alone. \<open>ErrorObject m\<close> is an instance of \<^verbatim>\<open>Error\<close> with message \<open>m\<close>; \<open>Nullish\<close>
  is \<^verbatim>\<open>null\<close> or \<^verbatim>\<open>undefined\<close> (reading a property of it throws a TypeError);
  \<open>OtherValue t\<close> is any other thrown value, \<open>t\<close> being the text a template literal
  renders for its \<^verbatim>\<open>message\<close> property.
\<close>

datatype thrown = ErrorObject string | Nullish | OtherValue string

text \<open>How an asynchronous handler ends: its promise is fulfilled, or rejected.\<close>

datatype settled = Fulfilled | Rejected

text \<open>The two properties of a \<^verbatim>\<open>File\<close> the handler reads: \<^verbatim>\<open>name\<close> and \<^verbatim>\<open>type\<close>.\<close>

record File =
  file_name :: string
  file_type :: string

text \<open>
  The report shape. \<^verbatim>\<open>importRegexScriptFromJson\<close> resolves to it, and the component
  state \<^verbatim>\<open>importResult\<close> holds it. The handler guards \<^verbatim>\<open>result.errors\<close> against
  being absent, and the file lists are absent from single-source reports, so these three
  fields are optional. Counts are JavaScript numbers holding integers.
\<close>

record ImportResult =
  success :: bool
  message :: string
  importedCount :: int
  skippedCount :: int
  errors :: "string list option"
  successfulFiles :: "string list option"
  failedFiles :: "string list option"

text \<open>The options object passed to \<^verbatim>\<open>importRegexScriptFromJson\<close> when saving as global.\<close>

record import_options =
  saveAsGlobal :: bool
  globalName :: string
  globalDescription :: string
  sourceCharacterName :: "string option"

text \<open>
  The collaborators the handlers call, none of which is defined in the component:
  \<^verbatim>\<open>file.text()\<close>, \<^verbatim>\<open>JSON.parse\<close>, the two import functions and the
  \<^verbatim>\<open>onImportSuccess\<close> callback of the props. \<open>'j\<close> is the type of parsed JSON.
  \<^verbatim>\<open>onImportSuccess\<close> returns \<open>None\<close> when it returns normally.

  Two properties of the JavaScript engine are parameters too. A call takes at most
  \<open>spread_limit\<close> arguments: \<^verbatim>\<open>push(...xs)\<close> with a longer \<^verbatim>\<open>xs\<close> throws a RangeError
  before anything is pushed, and \<open>spread_error\<close> is the message of that error.
\<close>

record ('s, 'j) collaborators =
  file_text :: "File \<Rightarrow> thrown + string"
  JSON_parse :: "string \<Rightarrow> thrown + 'j"
  importRegexScriptFromJson ::
    "string \<Rightarrow> 'j \<Rightarrow> import_options option \<Rightarrow> 's \<Rightarrow> (thrown + ImportResult) \<times> 's"
  importFromGlobalRegexScript :: "string \<Rightarrow> string \<Rightarrow> 's \<Rightarrow> (thrown + ImportResult) \<times> 's"
  importFromGlobalWorldBook :: "string \<Rightarrow> string \<Rightarrow> 's \<Rightarrow> (thrown + ImportResult) \<times> 's"
  onImportSuccess :: "'s \<Rightarrow> thrown option \<times> 's"
  spread_limit :: nat
  spread_error :: string

text \<open>
  The component state the handlers write, and the notifications they raise:
  \<^verbatim>\<open>toast.error\<close>/\<^verbatim>\<open>toast.success\<close> calls are appended to \<open>toasts\<close>; the world-book
  modal shows errors through its own \<^verbatim>\<open>errorToast\<close> state instead.
  \<^verbatim>\<open>console.error\<close> is not modelled.
\<close>

datatype toast = ToastError string | ToastSuccess string

record ui =
  isImporting :: bool
  importResult :: "ImportResult option"
  toasts :: "toast list"
  errorToast :: "bool \<times> string"

subsection \<open>String helpers\<close>

text \<open>\<^verbatim>\<open>String.prototype.includes\<close>: does \<open>sub\<close> occur in \<open>s\<close> as a substring?\<close>

fun String_includes :: "string \<Rightarrow> string \<Rightarrow> bool" where
  "String_includes [] sub = (sub = [])"
| "String_includes (c # cs) sub = (prefix sub (c # cs) \<or> String_includes cs sub)"

text \<open>
  \<^verbatim>\<open>String.prototype.replace\<close> with a string pattern: the first occurrence only.
  The handler's replacement is the empty string, which has no \<^verbatim>\<open>$\<close> patterns.
\<close>

fun String_replace :: "string \<Rightarrow> string \<Rightarrow> string \<Rightarrow> string" where
  "String_replace [] pat rep = (if pat = [] then rep else [])"
| "String_replace (c # cs) pat rep =
     (if prefix pat (c # cs) then rep @ drop (length pat) (c # cs)
      else c # String_replace cs pat rep)"

text \<open>A non-negative integer as a template literal renders it: decimal digits.\<close>

fun to_decimal :: "nat \<Rightarrow> string" where
  "to_decimal n =
     (if n < 10 then [''0123456789'' ! n]
      else to_decimal (n div 10) @ [''0123456789'' ! (n mod 10)])"

declare to_decimal.simps [simp del]

subsection \<open>The batch import of \<^verbatim>\<open>handleFilesSelect\<close>\<close>

text \<open>The five local accumulators declared before the loop.\<close>

record batch_acc =
  totalImported :: int
  totalSkipped :: int
  allErrors :: "string list"
  successfulFiles_acc :: "string list"
  failedFiles_acc :: "string list"

definition initial_acc :: batch_acc where
  "initial_acc =
     \<lparr>totalImported = 0, totalSkipped = 0, allErrors = [],
      successfulFiles_acc = [], failedFiles_acc = []\<rparr>"

text \<open>The \<^verbatim>\<open>options\<close> built for one file; \<open>sg\<close> is the \<^verbatim>\<open>saveAsGlobal\<close> state.\<close>

definition build_options :: "bool \<Rightarrow> File \<Rightarrow> import_options option" where
  "build_options sg file =
     (if sg then
        Some \<lparr>saveAsGlobal = True,
              globalName = String_replace (file_name file) ''.json'' '''',
              globalDescription = '''',
              sourceCharacterName = None\<rparr>
      else None)"

text \<open>
  The first statements of the inner \<^verbatim>\<open>try\<close>: read the file, parse it, import it.
  The value is what \<^verbatim>\<open>result\<close> is bound to, or what was thrown.
\<close>

definition attempt ::
  "('s, 'j) collaborators \<Rightarrow> string \<Rightarrow> bool \<Rightarrow> File \<Rightarrow> 's \<Rightarrow> (thrown + ImportResult) \<times> 's" where
  "attempt env characterId sg file s =
     (case file_text env file of
        Inl e \<Rightarrow> (Inl e, s)
      | Inr text \<Rightarrow>
          (case JSON_parse env text of
             Inl e \<Rightarrow> (Inl e, s)
           | Inr jsonData \<Rightarrow>
               importRegexScriptFromJson env characterId jsonData (build_options sg file) s))"

text \<open>
  \<^verbatim>\<open>xs.push(...ys)\<close>: the elements of \<open>ys\<close> become the arguments of one call. Beyond
  the limit of the engine the call throws and \<open>xs\<close> stays as it is.
\<close>

definition push_spread ::
  "('s, 'j) collaborators \<Rightarrow> string list \<Rightarrow> string list \<Rightarrow> thrown + string list" where
  "push_spread env xs ys =
     (if length ys > spread_limit env then Inl (ErrorObject (spread_error env))
      else Inr (xs @ ys))"

text \<open>
  \<^verbatim>\<open>if (result.errors && result.errors.length > 0)
  allErrors.push(...result.errors.map(err => `${file.name}: ${err}`))\<close>,
  the last statement of either branch. The first component is what it throws, if it does.
\<close>

definition push_result_errors ::
  "('s, 'j) collaborators \<Rightarrow> batch_acc \<Rightarrow> File \<Rightarrow> ImportResult \<Rightarrow> thrown option \<times> batch_acc" where
  "push_result_errors env acc file result =
     (case errors result of
        None \<Rightarrow> (None, acc)
      | Some es \<Rightarrow>
          if length es > 0 then
            (case push_spread env (allErrors acc) (map (\<lambda>err. file_name file @ '': '' @ err) es) of
               Inl e \<Rightarrow> (Some e, acc)
             | Inr es' \<Rightarrow> (None, acc\<lparr>allErrors := es'\<rparr>))
          else (None, acc))"

text \<open>
  The \<^verbatim>\<open>if (result.success) ... else ...\<close> that follows the import of one file, still
  inside the inner \<^verbatim>\<open>try\<close>. The totals and the file lists are written before the
  errors of the report are spread, so they keep their new values when the spread throws:
  the result is the thrown value, if any, and the accumulators as the statements that
  ran have left them.
\<close>

definition record_result ::
  "('s, 'j) collaborators \<Rightarrow> batch_acc \<Rightarrow> File \<Rightarrow> ImportResult \<Rightarrow> thrown option \<times> batch_acc" where
  "record_result env acc file result =
     (if success result then
        push_result_errors env
          (acc\<lparr>totalImported := totalImported acc + importedCount result,
               totalSkipped := totalSkipped acc + skippedCount result,
               successfulFiles_acc := successfulFiles_acc acc @ [file_name file]\<rparr>)
          file result
      else
        push_result_errors env
          (acc\<lparr>failedFiles_acc := failedFiles_acc acc @ [file_name file],
               allErrors := allErrors acc @ [file_name file @ '': '' @ message result]\<rparr>)
          file result)"

text \<open>\<^verbatim>\<open>error instanceof Error ? error.message : "Unknown error"\<close>\<close>

definition errorMessage :: "thrown \<Rightarrow> string" where
  "errorMessage e = (case e of ErrorObject m \<Rightarrow> m | _ \<Rightarrow> ''Unknown error'')"

text \<open>The inner \<^verbatim>\<open>catch\<close>.\<close>

definition record_exception :: "batch_acc \<Rightarrow> File \<Rightarrow> thrown \<Rightarrow> batch_acc" where
  "record_exception acc file e =
     acc\<lparr>failedFiles_acc := failedFiles_acc acc @ [file_name file],
         allErrors := allErrors acc @ [file_name file @ '': Failed to parse - '' @ errorMessage e]\<rparr>"

text \<open>
  The inner \<^verbatim>\<open>try\<close> from the point where the import has returned or something was
  thrown, together with its \<^verbatim>\<open>catch\<close>: a value thrown by reading, parsing or
  importing goes to the \<^verbatim>\<open>catch\<close> at once; a report is recorded, and what recording
  it throws goes to the \<^verbatim>\<open>catch\<close> as well, after the writes already made.
\<close>

definition record_outcome ::
  "('s, 'j) collaborators \<Rightarrow> batch_acc \<Rightarrow> File \<Rightarrow> thrown + ImportResult \<Rightarrow> batch_acc" where
  "record_outcome env acc file out =
     (case out of
        Inl e \<Rightarrow> record_exception acc file e
      | Inr result \<Rightarrow>
          (case record_result env acc file result of
             (None, acc') \<Rightarrow> acc'
           | (Some e, acc') \<Rightarrow> record_exception acc' file e))"

text \<open>One iteration of the loop: the inner \<^verbatim>\<open>try\<close>/\<^verbatim>\<open>catch\<close> around one file.\<close>

definition process_file ::
  "('s, 'j) collaborators \<Rightarrow> string \<Rightarrow> bool \<Rightarrow> batch_acc \<times> 's \<Rightarrow> File \<Rightarrow> batch_acc \<times> 's" where
  "process_file env characterId sg st file =
     (case attempt env characterId sg file (snd st) of
        (out, s') \<Rightarrow> (record_outcome env (fst st) file out, s'))"

text \<open>\<^verbatim>\<open>for (let i = 0; i < jsonFiles.length; i++)\<close>\<close>

fun import_loop ::
  "('s, 'j) collaborators \<Rightarrow> string \<Rightarrow> bool \<Rightarrow> batch_acc \<times> 's \<Rightarrow> File list \<Rightarrow> batch_acc \<times> 's" where
  "import_loop env characterId sg st [] = st"
| "import_loop env characterId sg st (file # rest) =
     import_loop env characterId sg (process_file env characterId sg st file) rest"

text \<open>The object \<^verbatim>\<open>finalResult\<close>; \<open>n\<close> is \<^verbatim>\<open>jsonFiles.length\<close>.\<close>

definition finalResult :: "nat \<Rightarrow> batch_acc \<Rightarrow> ImportResult" where
  "finalResult n acc =
     \<lparr>success = (length (successfulFiles_acc acc) > 0),
      message = ''Processed '' @ to_decimal n @ '' files: ''
                @ to_decimal (length (successfulFiles_acc acc)) @ '' successful, ''
                @ to_decimal (length (failedFiles_acc acc)) @ '' failed'',
      importedCount = totalImported acc,
      skippedCount = totalSkipped acc,
      errors = Some (allErrors acc),
      successfulFiles = Some (successfulFiles_acc acc),
      failedFiles = Some (failedFiles_acc acc)\<rparr>"

text \<open>The loop from fresh accumulators, followed by the construction of the report.\<close>

definition importBatch ::
  "('s, 'j) collaborators \<Rightarrow> string \<Rightarrow> bool \<Rightarrow> File list \<Rightarrow> 's \<Rightarrow> ImportResult \<times> 's" where
  "importBatch env characterId sg jsonFiles s =
     (case import_loop env characterId sg (initial_acc, s) jsonFiles of
        (acc, s') \<Rightarrow> (finalResult (length jsonFiles) acc, s'))"

text \<open>\<^verbatim>\<open>files.filter(file => file.type.includes("json"))\<close>\<close>

definition jsonFiles_of :: "File list \<Rightarrow> File list" where
  "jsonFiles_of files = filter (\<lambda>file. String_includes (file_type file) ''json'') files"

text \<open>The report the outer \<^verbatim>\<open>catch\<close> stores.\<close>

definition batch_failed_report :: "thrown \<Rightarrow> ImportResult" where
  "batch_failed_report e =
     \<lparr>success = False,
      message = ''Batch import failed: '' @ errorMessage e,
      importedCount = 0,
      skippedCount = 0,
      errors = Some [errorMessage e],
      successfulFiles = None,
      failedFiles = None\<rparr>"

definition add_toast :: "toast \<Rightarrow> ui \<Rightarrow> ui" where
  "add_toast t u = u\<lparr>toasts := toasts u @ [t]\<rparr>"

text \<open>
  What follows the construction of \<^verbatim>\<open>finalResult\<close> inside the outer \<^verbatim>\<open>try\<close>:
  store the report, raise a toast and, on success, call \<^verbatim>\<open>onImportSuccess\<close>, the only
  statement there that runs code from outside the component. The first component says
  whether it threw.
\<close>

definition announce ::
  "('s, 'j) collaborators \<Rightarrow> nat \<Rightarrow> ImportResult \<Rightarrow> batch_acc \<Rightarrow> ui \<times> 's \<Rightarrow> thrown option \<times> ui \<times> 's" where
  "announce env n final acc st =
     (let u1 = (fst st)\<lparr>importResult := Some final\<rparr> in
      if success final then
        (let u2 =
           (if length (failedFiles_acc acc) > 0 then
              add_toast (ToastSuccess (''Successfully imported from ''
                @ to_decimal (length (successfulFiles_acc acc)) @ '' files (''
                @ to_decimal (length (failedFiles_acc acc)) @ '' failed)'')) u1
            else
              add_toast (ToastSuccess (''Successfully imported from all ''
                @ to_decimal (length (successfulFiles_acc acc)) @ '' files'')) u1)
         in case onImportSuccess env (snd st) of (r, s') \<Rightarrow> (r, u2, s'))
      else
        (None,
         add_toast (ToastError (''Failed to import from all '' @ to_decimal n @ '' files'')) u1,
         snd st))"

text \<open>
  The handler. It returns how its promise settles, the component state and the outside
  state. The early return leaves \<^verbatim>\<open>importResult\<close> and \<^verbatim>\<open>isImporting\<close> untouched.
\<close>

definition handleFilesSelect ::
  "('s, 'j) collaborators \<Rightarrow> string \<Rightarrow> bool \<Rightarrow> File list \<Rightarrow> ui \<times> 's \<Rightarrow> settled \<times> ui \<times> 's" where
  "handleFilesSelect env characterId sg files st =
     (let jsonFiles = jsonFiles_of files in
      if length jsonFiles = 0 then
        (Fulfilled, add_toast (ToastError ''Please select at least one JSON file'') (fst st), snd st)
      else
        (let u1 =
           (if length jsonFiles \<noteq> length files then
              add_toast (ToastError (to_decimal (length files - length jsonFiles)
                @ '' non-JSON files were skipped'')) (fst st)
            else fst st);
             u2 = u1\<lparr>isImporting := True, importResult := None\<rparr>
         in case import_loop env characterId sg (initial_acc, snd st) jsonFiles of
              (acc, s1) \<Rightarrow>
                (case announce env (length jsonFiles) (finalResult (length jsonFiles) acc) acc (u2, s1) of
                   (None, u3, s2) \<Rightarrow> (Fulfilled, u3\<lparr>isImporting := False\<rparr>, s2)
                 | (Some e, u3, s2) \<Rightarrow>
                     (Fulfilled,
                      (add_toast (ToastError (''Batch import failed: '' @ errorMessage e)) u3)
                        \<lparr>importResult := Some (batch_failed_report e), isImporting := False\<rparr>,
                      s2))))"

subsection \<open>The sources of a batch, as the loop meets them\<close>

text \<open>
  The outcome of every source in input order: what the statements of the inner
  \<^verbatim>\<open>try\<close> produced for it, in the outside state its predecessors left behind. A source
  succeeded when its import returned a report whose \<^verbatim>\<open>success\<close> flag is set.
\<close>

fun source_outcomes ::
  "('s, 'j) collaborators \<Rightarrow> string \<Rightarrow> bool \<Rightarrow> 's \<Rightarrow> File list
     \<Rightarrow> (File \<times> (thrown + ImportResult)) list" where
  "source_outcomes env characterId sg s [] = []"
| "source_outcomes env characterId sg s (file # rest) =
     (case attempt env characterId sg file s of
        (out, s') \<Rightarrow> (file, out) # source_outcomes env characterId sg s' rest)"

definition succeeded :: "thrown + ImportResult \<Rightarrow> bool" where
  "succeeded out = (case out of Inr result \<Rightarrow> success result | Inl e \<Rightarrow> False)"

text \<open>The reports of the sources that succeeded, in input order.\<close>

fun successful_reports :: "(File \<times> (thrown + ImportResult)) list \<Rightarrow> ImportResult list" where
  "successful_reports [] = []"
| "successful_reports ((file, Inr result) # rest) =
     (if success result then result # successful_reports rest else successful_reports rest)"
| "successful_reports ((file, Inl e) # rest) = successful_reports rest"

subsection \<open>Import from the global library\<close>

text \<open>The report stored after a successful import from the library (both modals).\<close>

definition global_report :: "ImportResult \<Rightarrow> ImportResult" where
  "global_report result =
     \<lparr>success = True,
      message = message result,
      importedCount = importedCount result,
      skippedCount = 0,
      errors = Some [],
      successfulFiles = None,
      failedFiles = None\<rparr>"

text \<open>
  \<^verbatim>\<open>`${error.message}`\<close> in a \<^verbatim>\<open>catch (error: any)\<close>: \<open>None\<close> when reading the
  property throws.
\<close>

definition rendered_message :: "thrown \<Rightarrow> string option" where
  "rendered_message e =
     (case e of ErrorObject m \<Rightarrow> Some m | Nullish \<Rightarrow> None | OtherValue t \<Rightarrow> Some t)"

text \<open>\<^verbatim>\<open>showErrorToast\<close> of the world-book modal.\<close>

definition showErrorToast :: "string \<Rightarrow> ui \<Rightarrow> ui" where
  "showErrorToast m u = u\<lparr>errorToast := (True, m)\<rparr>"

text \<open>
  The \<^verbatim>\<open>try\<close> block of \<^verbatim>\<open>handleImportFromGlobal\<close>. The two modals differ in the import
  function they call and in how they show an error, which are the first two arguments.
\<close>

definition global_try ::
  "(string \<Rightarrow> string \<Rightarrow> 's \<Rightarrow> (thrown + ImportResult) \<times> 's) \<Rightarrow> (string \<Rightarrow> ui \<Rightarrow> ui)
     \<Rightarrow> ('s, 'j) collaborators \<Rightarrow> string \<Rightarrow> string \<Rightarrow> ui \<times> 's \<Rightarrow> thrown option \<times> ui \<times> 's" where
  "global_try importer show_error env characterId selectedGlobalId st =
     (case importer characterId selectedGlobalId (snd st) of
        (Inl e, s1) \<Rightarrow> (Some e, fst st, s1)
      | (Inr result, s1) \<Rightarrow>
          if success result then
            (let u = add_toast (ToastSuccess (message result))
                       ((fst st)\<lparr>importResult := Some (global_report result)\<rparr>)
             in case onImportSuccess env s1 of (r, s2) \<Rightarrow> (r, u, s2))
          else (None, show_error (message result) (fst st), s1))"

text \<open>
  The whole handler: the guard on the selection, the \<^verbatim>\<open>try\<close>, the \<^verbatim>\<open>catch\<close> (which
  itself throws when the caught value is \<^verbatim>\<open>null\<close> or \<^verbatim>\<open>undefined\<close>) and the
  \<^verbatim>\<open>finally\<close>.
\<close>

definition global_handler ::
  "(string \<Rightarrow> string \<Rightarrow> 's \<Rightarrow> (thrown + ImportResult) \<times> 's) \<Rightarrow> (string \<Rightarrow> ui \<Rightarrow> ui) \<Rightarrow> string
     \<Rightarrow> ('s, 'j) collaborators \<Rightarrow> string \<Rightarrow> string \<Rightarrow> ui \<times> 's \<Rightarrow> settled \<times> ui \<times> 's" where
  "global_handler importer show_error prompt env characterId selectedGlobalId st =
     (if selectedGlobalId = [] then (Fulfilled, show_error prompt (fst st), snd st)
      else
        (case global_try importer show_error env characterId selectedGlobalId
                ((fst st)\<lparr>isImporting := True\<rparr>, snd st) of
           (None, u, s) \<Rightarrow> (Fulfilled, u\<lparr>isImporting := False\<rparr>, s)
         | (Some e, u, s) \<Rightarrow>
             (case rendered_message e of
                Some m \<Rightarrow> (Fulfilled, (show_error (''Import failed: '' @ m) u)\<lparr>isImporting := False\<rparr>, s)
              | None \<Rightarrow> (Rejected, u\<lparr>isImporting := False\<rparr>, s))))"

text \<open>\<^verbatim>\<open>handleImportFromGlobal\<close> of the regex-script modal.\<close>

definition handleImportFromGlobal ::
  "('s, 'j) collaborators \<Rightarrow> string \<Rightarrow> string \<Rightarrow> ui \<times> 's \<Rightarrow> settled \<times> ui \<times> 's" where
  "handleImportFromGlobal env =
     global_handler (importFromGlobalRegexScript env) (\<lambda>m. add_toast (ToastError m))
       ''Please select a global regex script'' env"

text \<open>\<^verbatim>\<open>handleImportFromGlobal\<close> of the world-book modal.\<close>

definition handleImportFromGlobal_worldbook ::
  "('s, 'j) collaborators \<Rightarrow> string \<Rightarrow> string \<Rightarrow> ui \<times> 's \<Rightarrow> settled \<times> ui \<times> 's" where
  "handleImportFromGlobal_worldbook env =
     global_handler (importFromGlobalWorldBook env) showErrorToast
       ''Please select a global world book'' env"

subsection \<open>The merge engine and the library import, from the specification\<close>

text \<open>
  Modelled from the spec: the entries, the merge/dedup engine (section 4.2) and
  \<^verbatim>\<open>importFromGlobal\<close> (section 4.4). The modules \<^verbatim>\<open>@/function/regex/import\<close>,
  \<^verbatim>\<open>@/function/regex/global\<close>, \<^verbatim>\<open>@/function/worldbook/import\<close> and
  \<^verbatim>\<open>@/function/worldbook/global\<close> that implement them are imported by the component
  and are not part of the sources at hand.

  An entry is an identity key with the rest of its fields.
\<close>

datatype ('k, 'c) AssetEntry = AssetEntry (identity_key: 'k) (body: 'c)

record ('k, 'c) merge_result =
  updated :: "('k, 'c) AssetEntry list"
  merge_importedCount :: nat
  merge_skippedCount :: nat
  perEntryErrors :: "string list"

text \<open>
  Modelled from the spec: "iterate incoming entries in input order; for each, compute
  its identity key; if the key already exists in existing (or in entries already
  accepted earlier in this same merge pass), classify as skipped and do not mutate;
  otherwise append to existing, classify as imported". Duplicates raise no entry-level
  error, so the error list stays as it is.
\<close>

fun merge_into ::
  "('k, 'c) merge_result \<Rightarrow> ('k, 'c) AssetEntry list \<Rightarrow> ('k, 'c) merge_result" where
  "merge_into r [] = r"
| "merge_into r (e # es) =
     (if identity_key e \<in> set (map identity_key (updated r))
      then merge_into (r\<lparr>merge_skippedCount := merge_skippedCount r + 1\<rparr>) es
      else merge_into (r\<lparr>updated := updated r @ [e],
                         merge_importedCount := merge_importedCount r + 1\<rparr>) es)"

text \<open>
  Modelled from the spec: the contract \<^verbatim>\<open>merge(existing, incoming)\<close> of section 4.2,
  which starts the pass from the existing collection with both counts at zero.
\<close>

definition merge ::
  "('k, 'c) AssetEntry list \<Rightarrow> ('k, 'c) AssetEntry list \<Rightarrow> ('k, 'c) merge_result" where
  "merge existing incoming =
     merge_into \<lparr>updated = existing, merge_importedCount = 0, merge_skippedCount = 0,
                 perEntryErrors = []\<rparr> incoming"

text \<open>
  Modelled from the spec: the two stores of section 6. \<open>collections\<close> is
  \<^verbatim>\<open>CharacterCollectionStore.get\<close> for one asset kind; \<open>library\<close> maps the id of a
  library item to its stored bundle.
\<close>

record ('k, 'c) stores =
  collections :: "string \<Rightarrow> ('k, 'c) AssetEntry list"
  library :: "string \<rightharpoonup> ('k, 'c) AssetEntry list"

text \<open>
  Modelled from the spec: "loads the stored bundle, runs it through 4.2 merge against
  the target character's existing collection, returns a single-source ImportResult
  (no successfulFiles/failedFiles). Fails with NotFoundError if libraryItemId does not
  exist." The spec leaves the wording of the message open: \<open>describe\<close> gives it from
  the two counts.
\<close>

definition importFromGlobal ::
  "(nat \<Rightarrow> nat \<Rightarrow> string) \<Rightarrow> string \<Rightarrow> string \<Rightarrow> ('k, 'c) stores
     \<Rightarrow> (thrown + ImportResult) \<times> ('k, 'c) stores" where
  "importFromGlobal describe libraryItemId targetCharacterId st =
     (case library st libraryItemId of
        None \<Rightarrow> (Inl (ErrorObject ''NotFoundError''), st)
      | Some bundle \<Rightarrow>
          (let m = merge (collections st targetCharacterId) bundle in
           (Inr \<lparr>success = True,
                 message = describe (merge_importedCount m) (merge_skippedCount m),
                 importedCount = int (merge_importedCount m),
                 skippedCount = int (merge_skippedCount m),
                 errors = Some (perEntryErrors m),
                 successfulFiles = None,
                 failedFiles = None\<rparr>,
            st\<lparr>collections := (collections st)(targetCharacterId := updated m)\<rparr>)))"

subsection \<open>Notions used to state the properties\<close>

text \<open>
  What one source adds to the error list and to \<^verbatim>\<open>failedFiles\<close>: what the loop body
  records for it, starting from empty accumulators. \<open>caught\<close> is the value that reaches
  the inner \<^verbatim>\<open>catch\<close> for a source, if any.
\<close>

definition source_errors ::
  "('s, 'j) collaborators \<Rightarrow> File \<times> (thrown + ImportResult) \<Rightarrow> string list" where
  "source_errors env p = allErrors (record_outcome env initial_acc (fst p) (snd p))"

definition source_failures ::
  "('s, 'j) collaborators \<Rightarrow> File \<times> (thrown + ImportResult) \<Rightarrow> string list" where
  "source_failures env p = failedFiles_acc (record_outcome env initial_acc (fst p) (snd p))"

definition caught ::
  "('s, 'j) collaborators \<Rightarrow> File \<Rightarrow> thrown + ImportResult \<Rightarrow> thrown option" where
  "caught env file out =
     (case out of
        Inl e \<Rightarrow> Some e
      | Inr result \<Rightarrow> fst (record_result env initial_acc file result))"

definition keys_of :: "('k, 'c) AssetEntry list \<Rightarrow> 'k list" where
  "keys_of es = map identity_key es"

text \<open>
  The report that \<^verbatim>\<open>handleFilesSelect\<close> leaves in \<^verbatim>\<open>importResult\<close> when there is a
  JSON file, given the report of the batch and the outside state after the loop: the
  report of the batch, unless a source succeeded and \<^verbatim>\<open>onImportSuccess\<close> threw, in
  which case the outer \<^verbatim>\<open>catch\<close> has replaced it.
\<close>

definition stored_report :: "('s, 'j) collaborators \<Rightarrow> ImportResult \<times> 's \<Rightarrow> ImportResult" where
  "stored_report env b =
     (if success (fst b) then
        (case fst (onImportSuccess env (snd b)) of
           None \<Rightarrow> fst b
         | Some e \<Rightarrow> batch_failed_report e)
      else fst b)"

subsection \<open>A concrete batch and a concrete library\<close>

text \<open>
  Four selected files, one of them not JSON. The text of \<^verbatim>\<open>two.json\<close> does not parse.
  The outside state is the list of script keys of the character; the stand-in importer
  takes the parsed text as the key of a single script and skips it when the character
  has it already, so \<^verbatim>\<open>three.json\<close>, which repeats \<^verbatim>\<open>one.json\<close>, imports nothing
  and still succeeds.
\<close>

definition demo_files :: "File list" where
  "demo_files =
     [\<lparr>file_name = ''one.json'', file_type = ''application/json''\<rparr>,
      \<lparr>file_name = ''notes.txt'', file_type = ''text/plain''\<rparr>,
      \<lparr>file_name = ''two.json'', file_type = ''application/json''\<rparr>,
      \<lparr>file_name = ''three.json'', file_type = ''application/json''\<rparr>]"

definition demo_reply :: "int \<Rightarrow> int \<Rightarrow> ImportResult" where
  "demo_reply i k =
     \<lparr>success = True, message = ''done'', importedCount = i, skippedCount = k,
      errors = None, successfulFiles = None, failedFiles = None\<rparr>"

definition demo_env :: "(string list, string) collaborators" where
  "demo_env =
     \<lparr>file_text = (\<lambda>f. if file_name f = ''two.json'' then Inr ''{'' else Inr ''a''),
      JSON_parse = (\<lambda>t. if t = ''{'' then Inl (ErrorObject ''Unexpected end of JSON input'')
                          else Inr t),
      importRegexScriptFromJson =
        (\<lambda>characterId j opts s.
           if j \<in> set s then (Inr (demo_reply 0 1), s) else (Inr (demo_reply 1 0), s @ [j])),
      importFromGlobalRegexScript = (\<lambda>characterId globalId s. (Inr (demo_reply 2 0), s)),
      importFromGlobalWorldBook = (\<lambda>characterId globalId s. (Inr (demo_reply 3 0), s)),
      onImportSuccess = (\<lambda>s. (None, s)),
      spread_limit = 65536,
      spread_error = ''Maximum call stack size exceeded''\<rparr>"

text \<open>The same setting with an \<^verbatim>\<open>onImportSuccess\<close> callback that throws.\<close>

definition demo_env_throwing :: "(string list, string) collaborators" where
  "demo_env_throwing =
     demo_env\<lparr>onImportSuccess := (\<lambda>s. (Some (ErrorObject ''reload failed''), s))\<rparr>"

text \<open>
  Two JSON files. The import of \<^verbatim>\<open>ok.json\<close> succeeds with one script; the import of
  \<^verbatim>\<open>huge.json\<close> returns a report with 200000 entry errors, more than the engine
  accepts as arguments of one call. \<open>flag\<close> is the \<^verbatim>\<open>success\<close> flag of that report.
\<close>

definition overflow_files :: "File list" where
  "overflow_files =
     [\<lparr>file_name = ''ok.json'', file_type = ''application/json''\<rparr>,
      \<lparr>file_name = ''huge.json'', file_type = ''application/json''\<rparr>]"

definition overflow_report :: "bool \<Rightarrow> ImportResult" where
  "overflow_report flag =
     \<lparr>success = flag, message = ''checked'', importedCount = (if flag then 1 else 0),
      skippedCount = 0, errors = Some (replicate 200000 ''invalid entry''),
      successfulFiles = None, failedFiles = None\<rparr>"

definition overflow_env :: "bool \<Rightarrow> (unit, string) collaborators" where
  "overflow_env flag =
     \<lparr>file_text = (\<lambda>f. Inr (file_name f)),
      JSON_parse = (\<lambda>t. Inr t),
      importRegexScriptFromJson =
        (\<lambda>characterId j opts s.
           if j = ''huge.json'' then (Inr (overflow_report flag), s)
           else (Inr (demo_reply 1 0), s)),
      importFromGlobalRegexScript = (\<lambda>characterId globalId s. (Inl Nullish, s)),
      importFromGlobalWorldBook = (\<lambda>characterId globalId s. (Inl Nullish, s)),
      onImportSuccess = (\<lambda>s. (None, s)),
      spread_limit = 65536,
      spread_error = ''Maximum call stack size exceeded''\<rparr>"

definition demo_ui :: ui where
  "demo_ui = \<lparr>isImporting = False, importResult = None, toasts = [], errorToast = (False, [])\<rparr>"

text \<open>
  A character \<^verbatim>\<open>c1\<close> that owns entry \<^verbatim>\<open>a\<close>, and a library item \<^verbatim>\<open>g1\<close> whose bundle
  holds \<^verbatim>\<open>a\<close> and \<^verbatim>\<open>b\<close>; the library import of the specification stands behind
  both modals.
\<close>

definition demo_stores :: "(string, string) stores" where
  "demo_stores =
     \<lparr>collections = (\<lambda>c. if c = ''c1'' then [AssetEntry ''a'' ''x''] else []),
      library = [''g1'' \<mapsto> [AssetEntry ''a'' ''x'', AssetEntry ''b'' ''y'']]\<rparr>"

definition demo_library_env :: "((string, string) stores, unit) collaborators" where
  "demo_library_env =
     \<lparr>file_text = (\<lambda>f. Inr []),
      JSON_parse = (\<lambda>t. Inr ()),
      importRegexScriptFromJson = (\<lambda>characterId j opts s. (Inl Nullish, s)),
      importFromGlobalRegexScript =
        (\<lambda>characterId globalId. importFromGlobal (\<lambda>i k. ''imported'') globalId characterId),
      importFromGlobalWorldBook =
        (\<lambda>characterId globalId. importFromGlobal (\<lambda>i k. ''imported'') globalId characterId),
      onImportSuccess = (\<lambda>s. (None, s)),
      spread_limit = 65536,
      spread_error = ''Maximum call stack size exceeded''\<rparr>"

section \<open>Properties of the batch import\<close>

subsection \<open>The loop, source by source\<close>

lemma import_loop_append:
  "import_loop env c sg st (xs @ ys) = import_loop env c sg (import_loop env c sg st xs) ys"
  by (induction xs arbitrary: st) simp_all

lemma source_outcomes_files: "map fst (source_outcomes env c sg s files) = files"
  by (induction files arbitrary: s) (simp_all split: prod.split)

lemma source_outcomes_append:
  "source_outcomes env c sg s (xs @ ys) =
     source_outcomes env c sg s xs
       @ source_outcomes env c sg (snd (import_loop env c sg (acc, s) xs)) ys"
proof (induction xs arbitrary: acc s)
  case Nil
  show ?case by simp
next
  case (Cons x xs)
  show ?case
    by (simp add: process_file_def split: prod.split) (use Cons.IH in blast)
qed

lemma import_loop_outcomes:
  "fst (import_loop env c sg (acc, s) files) =
     foldl (\<lambda>a p. record_outcome env a (fst p) (snd p)) acc (source_outcomes env c sg s files)"
  by (induction files arbitrary: acc s) (simp_all add: process_file_def split: prod.split)

text \<open>What spreading the errors of a report does to each accumulator.\<close>

lemma push_result_errors_fields:
  "totalImported (snd (push_result_errors env acc file result)) = totalImported acc"
  "totalSkipped (snd (push_result_errors env acc file result)) = totalSkipped acc"
  "successfulFiles_acc (snd (push_result_errors env acc file result)) = successfulFiles_acc acc"
  "failedFiles_acc (snd (push_result_errors env acc file result)) = failedFiles_acc acc"
  by (simp_all add: push_result_errors_def push_spread_def split: option.split)

lemma push_result_errors_thrown:
  "fst (push_result_errors env acc file result) = fst (push_result_errors env acc' file result)"
  by (simp add: push_result_errors_def push_spread_def split: option.split)

lemma push_result_errors_errors:
  "\<exists>ms. (\<forall>acc. allErrors (snd (push_result_errors env acc file result)) = allErrors acc @ ms)
      \<and> (\<forall>m \<in> set ms. prefix (file_name file @ '': '') m)"
proof (cases "errors result")
  case None
  then show ?thesis
    by (simp add: push_result_errors_def)
next
  case (Some es)
  show ?thesis
  proof (cases "length es > 0 \<and> \<not> length es > spread_limit env")
    case True
    then show ?thesis
      by (intro exI [of _ "map (\<lambda>err. file_name file @ '': '' @ err) es"])
         (auto simp: push_result_errors_def push_spread_def Some)
  next
    case False
    then show ?thesis
      by (intro exI [of _ "[]"]) (auto simp: push_result_errors_def push_spread_def Some)
  qed
qed

lemma record_result_thrown:
  "fst (record_result env acc file result) = caught env file (Inr result)"
  using push_result_errors_thrown by (simp add: record_result_def caught_def) blast

lemma record_outcome_Inr:
  "record_outcome env acc file (Inr result) =
     (case caught env file (Inr result) of
        None \<Rightarrow> snd (record_result env acc file result)
      | Some e \<Rightarrow> record_exception (snd (record_result env acc file result)) file e)"
  using record_result_thrown [of env acc "file" result]
  by (cases "record_result env acc file result")
     (simp add: record_outcome_def split: option.split)

lemma record_outcome_successful:
  "successfulFiles_acc (record_outcome env acc file out) =
     successfulFiles_acc acc @ (if succeeded out then [file_name file] else [])"
proof (cases out)
  case (Inl e)
  then show ?thesis
    by (simp add: record_outcome_def record_exception_def succeeded_def)
next
  case (Inr result)
  show ?thesis
    unfolding Inr record_outcome_Inr
    by (simp add: record_result_def record_exception_def succeeded_def
        push_result_errors_fields split: option.split)
qed

lemma record_outcome_imported:
  "totalImported (record_outcome env acc file out) =
     totalImported acc + sum_list (map importedCount (successful_reports [(file, out)]))"
proof (cases out)
  case (Inl e)
  then show ?thesis
    by (simp add: record_outcome_def record_exception_def)
next
  case (Inr result)
  show ?thesis
    unfolding Inr record_outcome_Inr
    by (simp add: record_result_def record_exception_def push_result_errors_fields
        split: option.split)
qed

lemma record_outcome_skipped:
  "totalSkipped (record_outcome env acc file out) =
     totalSkipped acc + sum_list (map skippedCount (successful_reports [(file, out)]))"
proof (cases out)
  case (Inl e)
  then show ?thesis
    by (simp add: record_outcome_def record_exception_def)
next
  case (Inr result)
  show ?thesis
    unfolding Inr record_outcome_Inr
    by (simp add: record_result_def record_exception_def push_result_errors_fields
        split: option.split)
qed

text \<open>
  A source adds its name to \<^verbatim>\<open>failedFiles\<close> once when it did not succeed, and once when
  something reaches the \<^verbatim>\<open>catch\<close> after its report was recorded.
\<close>

lemma source_failures_shape:
  "source_failures env (file, out) =
     (if succeeded out then [] else [file_name file])
     @ (case out of Inl e \<Rightarrow> []
        | Inr result \<Rightarrow> if caught env file out = None then [] else [file_name file])"
proof (cases out)
  case (Inl e)
  then show ?thesis
    by (simp add: source_failures_def record_outcome_def record_exception_def succeeded_def
        initial_acc_def)
next
  case (Inr result)
  show ?thesis
    unfolding Inr source_failures_def fst_conv snd_conv record_outcome_Inr
    by (simp add: record_result_def record_exception_def succeeded_def initial_acc_def
        push_result_errors_fields split: option.split)
qed

lemma record_outcome_failed:
  "failedFiles_acc (record_outcome env acc file out) =
     failedFiles_acc acc @ source_failures env (file, out)"
proof (cases out)
  case (Inl e)
  then show ?thesis
    by (simp add: source_failures_def record_outcome_def record_exception_def initial_acc_def)
next
  case (Inr result)
  show ?thesis
    unfolding Inr source_failures_def fst_conv snd_conv record_outcome_Inr
    by (simp add: record_result_def record_exception_def initial_acc_def
        push_result_errors_fields split: option.split)
qed

lemma record_result_errors:
  "\<exists>ms. (\<forall>acc. allErrors (snd (record_result env acc file result)) = allErrors acc @ ms)
      \<and> (\<forall>m \<in> set ms. prefix (file_name file @ '': '') m)
      \<and> (\<not> success result \<longrightarrow> ms \<noteq> [])"
proof -
  obtain ms where ms:
    "\<And>acc. allErrors (snd (push_result_errors env acc file result)) = allErrors acc @ ms"
    "\<forall>m \<in> set ms. prefix (file_name file @ '': '') m"
    using push_result_errors_errors [of env "file" result] by blast
  show ?thesis
  proof (cases "success result")
    case True
    then show ?thesis
      using ms by (intro exI [of _ ms]) (simp add: record_result_def)
  next
    case False
    then show ?thesis
      using ms
      by (intro exI [of _ "(file_name file @ '': '' @ message result) # ms"])
         (simp add: record_result_def)
  qed
qed

lemma record_outcome_errors:
  "allErrors (record_outcome env acc file out) = allErrors acc @ source_errors env (file, out)"
proof (cases out)
  case (Inl e)
  then show ?thesis
    by (simp add: source_errors_def record_outcome_def record_exception_def initial_acc_def)
next
  case (Inr result)
  obtain ms where ms:
    "\<And>acc. allErrors (snd (record_result env acc file result)) = allErrors acc @ ms"
    using record_result_errors [of env "file" result] by blast
  show ?thesis
    unfolding Inr source_errors_def fst_conv snd_conv record_outcome_Inr
    by (simp add: ms record_exception_def initial_acc_def split: option.split)
qed

lemma source_errors_prefixed:
  "\<forall>m \<in> set (source_errors env (file, out)). prefix (file_name file @ '': '') m"
proof (cases out)
  case (Inl e)
  then show ?thesis
    by (simp add: source_errors_def record_outcome_def record_exception_def initial_acc_def)
next
  case (Inr result)
  obtain ms where ms:
    "\<And>acc. allErrors (snd (record_result env acc file result)) = allErrors acc @ ms"
    "\<forall>m \<in> set ms. prefix (file_name file @ '': '') m"
    using record_result_errors [of env "file" result] by blast
  show ?thesis
    unfolding Inr source_errors_def fst_conv snd_conv record_outcome_Inr
    using ms(2) by (auto simp: ms(1) record_exception_def initial_acc_def split: option.split)
qed


lemma source_failures_caught:
  assumes "caught env file out = Some e"
  shows "\<exists>ns. source_failures env (file, out) = ns @ [file_name file]
         \<and> (\<forall>e'. out = Inl e' \<longrightarrow> ns = [])"
  using assms
  by (cases out) (auto simp: source_failures_shape caught_def succeeded_def)


lemma successful_reports_Cons:
  "successful_reports (p # outs) = successful_reports [p] @ successful_reports outs"
  by (cases p; cases "snd p") auto

lemma fold_successful:
  "successfulFiles_acc (foldl (\<lambda>a p. record_outcome env a (fst p) (snd p)) acc outs) =
     successfulFiles_acc acc @ map (\<lambda>p. file_name (fst p)) (filter (\<lambda>p. succeeded (snd p)) outs)"
  by (induction outs arbitrary: acc) (simp_all add: record_outcome_successful)

lemma fold_failed:
  "failedFiles_acc (foldl (\<lambda>a p. record_outcome env a (fst p) (snd p)) acc outs) =
     failedFiles_acc acc @ concat (map (source_failures env) outs)"
  by (induction outs arbitrary: acc) (simp_all add: record_outcome_failed)

lemma fold_errors:
  "allErrors (foldl (\<lambda>a p. record_outcome env a (fst p) (snd p)) acc outs) =
     allErrors acc @ concat (map (source_errors env) outs)"
  by (induction outs arbitrary: acc) (simp_all add: record_outcome_errors)

lemma fold_imported:
  "totalImported (foldl (\<lambda>a p. record_outcome env a (fst p) (snd p)) acc outs) =
     totalImported acc + sum_list (map importedCount (successful_reports outs))"
proof (induction outs arbitrary: acc)
  case Nil
  show ?case by simp
next
  case (Cons p outs)
  have "successful_reports (p # outs) = successful_reports [(fst p, snd p)] @ successful_reports outs"
    using successful_reports_Cons [of p outs] by simp
  then show ?case
    by (simp add: Cons.IH record_outcome_imported del: successful_reports.simps)
qed

lemma fold_skipped:
  "totalSkipped (foldl (\<lambda>a p. record_outcome env a (fst p) (snd p)) acc outs) =
     totalSkipped acc + sum_list (map skippedCount (successful_reports outs))"
proof (induction outs arbitrary: acc)
  case Nil
  show ?case by simp
next
  case (Cons p outs)
  have "successful_reports (p # outs) = successful_reports [(fst p, snd p)] @ successful_reports outs"
    using successful_reports_Cons [of p outs] by simp
  then show ?case
    by (simp add: Cons.IH record_outcome_skipped del: successful_reports.simps)
qed

text \<open>The report of a batch, field by field, in terms of the outcomes of its sources.\<close>

lemma importBatch_report:
  "fst (importBatch env c sg files s) =
     finalResult (length files)
       (foldl (\<lambda>a p. record_outcome env a (fst p) (snd p)) initial_acc
          (source_outcomes env c sg s files))"
  using import_loop_outcomes [of env c sg initial_acc s files]
  by (cases "import_loop env c sg (initial_acc, s) files") (simp add: importBatch_def)

lemma importBatch_successfulFiles:
  "successfulFiles (fst (importBatch env c sg files s)) =
     Some (map (\<lambda>p. file_name (fst p))
             (filter (\<lambda>p. succeeded (snd p)) (source_outcomes env c sg s files)))"
  by (simp add: importBatch_report finalResult_def fold_successful initial_acc_def)

lemma importBatch_failedFiles:
  "failedFiles (fst (importBatch env c sg files s)) =
     Some (concat (map (source_failures env) (source_outcomes env c sg s files)))"
  by (simp add: importBatch_report finalResult_def fold_failed initial_acc_def)

lemma importBatch_errors:
  "errors (fst (importBatch env c sg files s)) =
     Some (concat (map (source_errors env) (source_outcomes env c sg s files)))"
  by (simp add: importBatch_report finalResult_def fold_errors initial_acc_def)

lemma outcome_names:
  "map (\<lambda>p. file_name (fst p)) (source_outcomes env c sg s files) = map file_name files"
proof -
  have "map file_name (map fst (source_outcomes env c sg s files)) = map file_name files"
    by (simp only: source_outcomes_files)
  then show ?thesis by (simp add: comp_def)
qed

text \<open>The concrete batches, evaluated.\<close>

lemma demo_json: "jsonFiles_of demo_files = [demo_files ! 0, demo_files ! 2, demo_files ! 3]"
  by (simp add: jsonFiles_of_def demo_files_def)

lemma demo_outcomes:
  "source_outcomes demo_env ''c1'' False [] (jsonFiles_of demo_files) =
     [(demo_files ! 0, Inr (demo_reply 1 0)),
      (demo_files ! 2, Inl (ErrorObject ''Unexpected end of JSON input'')),
      (demo_files ! 3, Inr (demo_reply 0 1))]"
  by (simp add: demo_json) (simp add: demo_files_def attempt_def demo_env_def build_options_def)

lemma demo_contributions:
  "source_failures demo_env (demo_files ! 0, Inr (demo_reply 1 0)) = []"
  "source_failures demo_env (demo_files ! 2, Inl (ErrorObject ''Unexpected end of JSON input''))
     = [''two.json'']"
  "source_failures demo_env (demo_files ! 3, Inr (demo_reply 0 1)) = []"
  "source_errors demo_env (demo_files ! 0, Inr (demo_reply 1 0)) = []"
  "source_errors demo_env (demo_files ! 2, Inl (ErrorObject ''Unexpected end of JSON input''))
     = [''two.json: Failed to parse - Unexpected end of JSON input'']"
  "source_errors demo_env (demo_files ! 3, Inr (demo_reply 0 1)) = []"
  by (simp_all add: source_failures_def source_errors_def record_outcome_def record_result_def
      push_result_errors_def record_exception_def errorMessage_def demo_reply_def initial_acc_def
      demo_files_def)

lemma demo_batch:
  "successfulFiles (fst (importBatch demo_env ''c1'' False (jsonFiles_of demo_files) []))
     = Some [''one.json'', ''three.json'']"
  "failedFiles (fst (importBatch demo_env ''c1'' False (jsonFiles_of demo_files) []))
     = Some [''two.json'']"
  "errors (fst (importBatch demo_env ''c1'' False (jsonFiles_of demo_files) []))
     = Some [''two.json: Failed to parse - Unexpected end of JSON input'']"
  by (simp_all add: importBatch_successfulFiles importBatch_failedFiles importBatch_errors
      demo_outcomes demo_contributions)
     (simp_all add: succeeded_def demo_reply_def demo_files_def)

lemma overflow_outcomes:
  "source_outcomes (overflow_env flag) ''c1'' False () overflow_files =
     [(overflow_files ! 0, Inr (demo_reply 1 0)),
      (overflow_files ! 1, Inr (overflow_report flag))]"
  by (simp add: overflow_files_def attempt_def overflow_env_def build_options_def)

lemma overflow_caught:
  "caught (overflow_env flag) (overflow_files ! 1) (Inr (overflow_report flag)) =
     Some (ErrorObject ''Maximum call stack size exceeded'')"
  by (simp add: caught_def record_result_def push_result_errors_def push_spread_def
      overflow_report_def overflow_env_def)

lemma overflow_contributions:
  "source_failures (overflow_env flag) (overflow_files ! 0, Inr (demo_reply 1 0)) = []"
  "source_failures (overflow_env flag) (overflow_files ! 1, Inr (overflow_report flag)) =
     (if flag then [''huge.json''] else [''huge.json'', ''huge.json''])"
  using overflow_caught [of flag]
  by (simp_all add: source_failures_shape succeeded_def)
     (simp_all add: caught_def record_result_def push_result_errors_def demo_reply_def
        overflow_report_def overflow_files_def)


subsection \<open>Failure isolation\<close>



subsection \<open>Totals of the batch\<close>

text \<open>
  Claim C4. The \<^verbatim>\<open>importedCount\<close> of the report of a batch is the sum of the
  \<^verbatim>\<open>importedCount\<close> of the reports of the sources that succeeded, and its
  \<^verbatim>\<open>skippedCount\<close> the sum of their \<^verbatim>\<open>skippedCount\<close>; recording a source that
  failed changes neither running total.
\<close>

theorem batch_totals_are_sums:
  "importedCount (fst (importBatch env c sg jsonFiles s)) =
     sum_list (map importedCount (successful_reports (source_outcomes env c sg s jsonFiles)))
   \<and> skippedCount (fst (importBatch env c sg jsonFiles s)) =
     sum_list (map skippedCount (successful_reports (source_outcomes env c sg s jsonFiles)))
   \<and> (\<not> succeeded out \<longrightarrow>
         totalImported (record_outcome env acc file out) = totalImported acc
       \<and> totalSkipped (record_outcome env acc file out) = totalSkipped acc)"
proof -
  have "totalImported (record_outcome env acc file out) = totalImported acc
      \<and> totalSkipped (record_outcome env acc file out) = totalSkipped acc"
    if "\<not> succeeded out"
    using that
    by (cases out)
       (simp_all add: record_outcome_imported record_outcome_skipped succeeded_def)
  then show ?thesis
    by (simp add: importBatch_report finalResult_def fold_imported fold_skipped initial_acc_def)
qed

theorem batch_totals_are_sums_witness:
  "\<not> succeeded (Inl (ErrorObject ''Unexpected end of JSON input''))
   \<and> totalImported (record_outcome demo_env initial_acc (demo_files ! 2)
         (Inl (ErrorObject ''Unexpected end of JSON input''))) = totalImported initial_acc
   \<and> importedCount (fst (importBatch demo_env ''c1'' False (jsonFiles_of demo_files) [])) = 1
   \<and> skippedCount (fst (importBatch demo_env ''c1'' False (jsonFiles_of demo_files) [])) = 1"
  using batch_totals_are_sums [of demo_env "''c1''" False "jsonFiles_of demo_files" "[]"
      "Inl (ErrorObject ''Unexpected end of JSON input'')" initial_acc "demo_files ! 2"]
  by (simp add: demo_outcomes demo_reply_def succeeded_def)

subsection \<open>Sequential processing in input order\<close>

lemma attempt_parsed:
  "file_text env file = Inr text \<Longrightarrow> JSON_parse env text = Inr json \<Longrightarrow>
     attempt env c sg file s = importRegexScriptFromJson env c json (build_options sg file) s"
  by (simp add: attempt_def)

lemma source_failures_names:
  "set (source_failures env p) \<subseteq> {file_name (fst p)}"
  by (cases p; cases "snd p") (auto simp: source_failures_shape)

text \<open>
  Claim C8. The loop processes the sources one after the other in input order, and a
  source is started only when its predecessor is complete: once the sources \<open>before\<close>
  have been processed, the import of the next file is
  \<^verbatim>\<open>importRegexScriptFromJson\<close> called on the outside state that they left, and
  the rest of the batch starts from the state which that call returns; for two files,
  the batch ends in the state returned by the second import run on the state returned by
  the first. Hence the three lists of the report are in input order:
  \<^verbatim>\<open>successfulFiles\<close> holds the names of the sources that succeeded, a subsequence
  of the input names; \<^verbatim>\<open>failedFiles\<close> and \<^verbatim>\<open>errors\<close> are what the sources
  recorded, source after source in input order, and what a source recorded consists of
  its own name, respectively of messages that start with its own name.
\<close>

theorem sources_processed_in_input_order:
  "(import_loop env c sg (initial_acc, s) before = (acc, s1)
      \<and> file_text env file = Inr text \<and> JSON_parse env text = Inr json
      \<and> importRegexScriptFromJson env c json (build_options sg file) s1 = (out, s2)
    \<longrightarrow> import_loop env c sg (initial_acc, s) (before @ file # rest) =
          import_loop env c sg (record_outcome env acc file out, s2) rest
      \<and> source_outcomes env c sg s (before @ file # rest) =
          source_outcomes env c sg s before @ (file, out) # source_outcomes env c sg s2 rest)
   \<and> (file_text env f1 = Inr t1 \<and> JSON_parse env t1 = Inr j1
      \<and> file_text env f2 = Inr t2 \<and> JSON_parse env t2 = Inr j2
    \<longrightarrow> snd (import_loop env c sg (acc0, s) [f1, f2]) =
          snd (importRegexScriptFromJson env c j2 (build_options sg f2)
                (snd (importRegexScriptFromJson env c j1 (build_options sg f1) s))))
   \<and> map fst (source_outcomes env c sg s jsonFiles) = jsonFiles
   \<and> successfulFiles (fst (importBatch env c sg jsonFiles s)) =
       Some (map (\<lambda>p. file_name (fst p))
               (filter (\<lambda>p. succeeded (snd p)) (source_outcomes env c sg s jsonFiles)))
   \<and> subseq (map (\<lambda>p. file_name (fst p))
               (filter (\<lambda>p. succeeded (snd p)) (source_outcomes env c sg s jsonFiles)))
        (map file_name jsonFiles)
   \<and> failedFiles (fst (importBatch env c sg jsonFiles s)) =
       Some (concat (map (source_failures env) (source_outcomes env c sg s jsonFiles)))
   \<and> errors (fst (importBatch env c sg jsonFiles s)) =
       Some (concat (map (source_errors env) (source_outcomes env c sg s jsonFiles)))
   \<and> (\<forall>p \<in> set (source_outcomes env c sg s jsonFiles).
         set (source_failures env p) \<subseteq> {file_name (fst p)}
       \<and> (\<forall>m \<in> set (source_errors env p). prefix (file_name (fst p) @ '': '') m))"
proof -
  let ?outs = "source_outcomes env c sg s jsonFiles"
  have step: "import_loop env c sg (initial_acc, s) (before @ file # rest) =
          import_loop env c sg (record_outcome env acc file out, s2) rest
      \<and> source_outcomes env c sg s (before @ file # rest) =
          source_outcomes env c sg s before @ (file, out) # source_outcomes env c sg s2 rest"
    if b: "import_loop env c sg (initial_acc, s) before = (acc, s1)"
      and t: "file_text env file = Inr text" and j: "JSON_parse env text = Inr json"
      and i: "importRegexScriptFromJson env c json (build_options sg file) s1 = (out, s2)"
  proof -
    have a: "attempt env c sg file s1 = (out, s2)"
      using attempt_parsed [OF t j, of c sg s1] i by simp
    have "snd (import_loop env c sg (initial_acc, s) before) = s1"
      by (simp add: b)
    then show ?thesis
      using source_outcomes_append [of env c sg s before "file # rest" initial_acc]
      by (simp add: import_loop_append b process_file_def a)
  qed
  have chain: "snd (import_loop env c sg (acc0, s) [f1, f2]) =
          snd (importRegexScriptFromJson env c j2 (build_options sg f2)
                (snd (importRegexScriptFromJson env c j1 (build_options sg f1) s)))"
    if "file_text env f1 = Inr t1" "JSON_parse env t1 = Inr j1"
      "file_text env f2 = Inr t2" "JSON_parse env t2 = Inr j2"
    using that by (simp add: process_file_def attempt_def split: prod.split)
  have sub: "subseq (map (\<lambda>p. file_name (fst p)) (filter (\<lambda>p. succeeded (snd p)) ?outs))
      (map file_name jsonFiles)"
    using subseq_map [OF subseq_filter_left [of "\<lambda>p. succeeded (snd p)" ?outs],
        of "\<lambda>p. file_name (fst p)"]
    by (simp add: outcome_names)
  have each: "\<forall>p \<in> set ?outs.
         set (source_failures env p) \<subseteq> {file_name (fst p)}
       \<and> (\<forall>m \<in> set (source_errors env p). prefix (file_name (fst p) @ '': '') m)"
  proof
    fix p assume "p \<in> set ?outs"
    show "set (source_failures env p) \<subseteq> {file_name (fst p)}
       \<and> (\<forall>m \<in> set (source_errors env p). prefix (file_name (fst p) @ '': '') m)"
      using source_failures_names [of env p] source_errors_prefixed [of env "fst p" "snd p"]
      by simp
  qed
  show ?thesis
    using step chain sub each
    by (simp only: source_outcomes_files importBatch_successfulFiles importBatch_failedFiles
        importBatch_errors) blast
qed

theorem sources_processed_in_input_order_witness:
  "file_text demo_env (demo_files ! 0) = Inr ''a'' \<and> JSON_parse demo_env ''a'' = Inr ''a''
   \<and> file_text demo_env (demo_files ! 3) = Inr ''a''
   \<and> importRegexScriptFromJson demo_env ''c1'' ''a'' (build_options False (demo_files ! 0)) []
       = (Inr (demo_reply 1 0), [''a''])
   \<and> importRegexScriptFromJson demo_env ''c1'' ''a'' (build_options False (demo_files ! 3)) [''a'']
       = (Inr (demo_reply 0 1), [''a''])
   \<and> source_outcomes demo_env ''c1'' False [] [demo_files ! 0, demo_files ! 3] =
       [(demo_files ! 0, Inr (demo_reply 1 0)), (demo_files ! 3, Inr (demo_reply 0 1))]
   \<and> snd (import_loop demo_env ''c1'' False (initial_acc, []) [demo_files ! 0, demo_files ! 3]) = [''a'']
   \<and> (demo_files ! 2, Inl (ErrorObject ''Unexpected end of JSON input''))
       \<in> set (source_outcomes demo_env ''c1'' False [] (jsonFiles_of demo_files))
   \<and> source_failures demo_env (demo_files ! 2, Inl (ErrorObject ''Unexpected end of JSON input''))
       = [''two.json'']
   \<and> failedFiles (fst (importBatch demo_env ''c1'' False (jsonFiles_of demo_files) []))
       = Some [''two.json'']"
proof -
  have t: "file_text demo_env (demo_files ! 0) = Inr ''a''" "JSON_parse demo_env ''a'' = Inr ''a''"
    "file_text demo_env (demo_files ! 3) = Inr ''a''"
    by (simp_all add: demo_env_def demo_files_def)
  have i: "importRegexScriptFromJson demo_env ''c1'' ''a'' (build_options False (demo_files ! 0)) []
       = (Inr (demo_reply 1 0), [''a''])"
    "importRegexScriptFromJson demo_env ''c1'' ''a'' (build_options False (demo_files ! 3)) [''a'']
       = (Inr (demo_reply 0 1), [''a''])"
    by (simp_all add: demo_env_def)
  have b: "import_loop demo_env ''c1'' False (initial_acc, []) [] = (initial_acc, [])"
    by simp
  have m: "(demo_files ! 2, Inl (ErrorObject ''Unexpected end of JSON input''))
       \<in> set (source_outcomes demo_env ''c1'' False [] (jsonFiles_of demo_files))"
    by (simp add: demo_outcomes)
  note first = sources_processed_in_input_order
    [of demo_env "''c1''" False "[]" "[]" initial_acc "[]" "demo_files ! 0" "''a''" "''a''"
      "Inr (demo_reply 1 0)" "[''a'']" "[demo_files ! 3]" "demo_files ! 0" "''a''" "''a''"
      "demo_files ! 3" "''a''" "''a''" initial_acc "jsonFiles_of demo_files"]
  have outs: "source_outcomes demo_env ''c1'' False [] [demo_files ! 0, demo_files ! 3] =
       [(demo_files ! 0, Inr (demo_reply 1 0)), (demo_files ! 3, Inr (demo_reply 0 1))]"
    by (simp add: attempt_def demo_env_def demo_files_def build_options_def)
  have st: "snd (import_loop demo_env ''c1'' False (initial_acc, []) [demo_files ! 0, demo_files ! 3]) = [''a'']"
    using first t i by (simp del: import_loop.simps)
  show ?thesis
    using t i m outs st demo_contributions(2) demo_batch(2) by simp
qed

subsection \<open>A report with more errors than one call takes\<close>

lemma to_decimal_small:
  "to_decimal 0 = ''0''" "to_decimal 1 = ''1''" "to_decimal 2 = ''2''" "to_decimal 3 = ''3''"
  "to_decimal (Suc 0) = ''1''" "to_decimal (Suc (Suc 0)) = ''2''"
  "to_decimal (Suc (Suc (Suc 0))) = ''3''"
  by (simp_all add: to_decimal.simps)

lemma importBatch_message:
  "successfulFiles (fst (importBatch env c sg files s)) = Some ok \<Longrightarrow>
   failedFiles (fst (importBatch env c sg files s)) = Some bad \<Longrightarrow>
   message (fst (importBatch env c sg files s)) =
     ''Processed '' @ to_decimal (length files) @ '' files: ''
       @ to_decimal (length ok) @ '' successful, ''
       @ to_decimal (length bad) @ '' failed''"
  by (simp add: importBatch_report finalResult_def)

lemma overflow_lists:
  "successfulFiles (fst (importBatch (overflow_env flag) ''c1'' False overflow_files ())) =
     Some (if flag then [''ok.json'', ''huge.json''] else [''ok.json''])"
  "failedFiles (fst (importBatch (overflow_env flag) ''c1'' False overflow_files ())) =
     Some (if flag then [''huge.json''] else [''huge.json'', ''huge.json''])"
proof -
  have s: "succeeded (Inr (demo_reply 1 0))" "succeeded (Inr (overflow_report flag)) = flag"
    by (simp_all add: succeeded_def demo_reply_def overflow_report_def)
  show "successfulFiles (fst (importBatch (overflow_env flag) ''c1'' False overflow_files ())) =
     Some (if flag then [''ok.json'', ''huge.json''] else [''ok.json''])"
    by (simp add: importBatch_successfulFiles overflow_outcomes s) (simp add: overflow_files_def)
  show "failedFiles (fst (importBatch (overflow_env flag) ''c1'' False overflow_files ())) =
     Some (if flag then [''huge.json''] else [''huge.json'', ''huge.json''])"
    using overflow_contributions [of flag]
    by (simp add: importBatch_failedFiles overflow_outcomes)
qed

text \<open>
  Claim C2, at an input where the code departs from it. The message of the report is
  built from the lengths of the two file lists. In a batch of two files, the import of
  \<^verbatim>\<open>ok.json\<close> succeeds and the import of \<^verbatim>\<open>huge.json\<close> returns a failing report
  with 200000 errors: the name is pushed to \<^verbatim>\<open>failedFiles\<close>, spreading the errors
  throws, and the \<^verbatim>\<open>catch\<close> pushes the name a second time. One source succeeded and
  one failed, and the message says 1 successful, 2 failed.
\<close>

theorem message_miscounts_failed_sources:
  "source_outcomes (overflow_env False) ''c1'' False () overflow_files =
     [(overflow_files ! 0, Inr (demo_reply 1 0)),
      (overflow_files ! 1, Inr (overflow_report False))]
   \<and> succeeded (Inr (demo_reply 1 0))
   \<and> \<not> succeeded (Inr (overflow_report False))
   \<and> message (fst (importBatch (overflow_env False) ''c1'' False overflow_files ())) =
       ''Processed 2 files: 1 successful, 2 failed''"
proof -
  have s: "succeeded (Inr (demo_reply 1 0))" "\<not> succeeded (Inr (overflow_report False))"
    by (simp_all add: succeeded_def demo_reply_def overflow_report_def)
  have n: "length overflow_files = 2"
    by (simp add: overflow_files_def)
  have "message (fst (importBatch (overflow_env False) ''c1'' False overflow_files ())) =
       ''Processed 2 files: 1 successful, 2 failed''"
    using importBatch_message [OF overflow_lists [of False]]
    by (simp add: n to_decimal_small)
  then show ?thesis
    using s overflow_outcomes [of False] by simp
qed


text \<open>
  Claim C9, at an input where the code departs from it. In the batch of the two JSON
  files \<^verbatim>\<open>ok.json\<close> and \<^verbatim>\<open>huge.json\<close>, where the import of the second returns a
  report with the \<^verbatim>\<open>success\<close> flag set and 200000 errors, the name \<^verbatim>\<open>huge.json\<close>
  is in both lists, and the lengths of the lists add up to three for two files.
\<close>

theorem file_lists_overlap:
  "jsonFiles_of overflow_files = overflow_files
   \<and> length overflow_files = 2
   \<and> successfulFiles (fst (importBatch (overflow_env True) ''c1'' False overflow_files ())) =
       Some [''ok.json'', ''huge.json'']
   \<and> failedFiles (fst (importBatch (overflow_env True) ''c1'' False overflow_files ())) =
       Some [''huge.json'']"
proof -
  have s: "succeeded (Inr (demo_reply 1 0))" "succeeded (Inr (overflow_report True))"
    by (simp_all add: succeeded_def demo_reply_def overflow_report_def)
  have j: "jsonFiles_of overflow_files = overflow_files" "length overflow_files = 2"
    by (simp_all add: jsonFiles_of_def overflow_files_def)
  have ok: "successfulFiles (fst (importBatch (overflow_env True) ''c1'' False overflow_files ())) =
       Some [''ok.json'', ''huge.json'']"
    by (simp add: importBatch_successfulFiles overflow_outcomes s) (simp add: overflow_files_def)
  have bad: "failedFiles (fst (importBatch (overflow_env True) ''c1'' False overflow_files ())) =
       Some [''huge.json'']"
    using overflow_contributions [of True]
    by (simp add: importBatch_failedFiles overflow_outcomes)
  show ?thesis
    using j ok bad by simp
qed

subsection \<open>The handler around the batch\<close>

lemma jsonFiles_of_idem: "jsonFiles_of (jsonFiles_of files) = jsonFiles_of files"
  by (simp add: jsonFiles_of_def)

lemma announce_result:
  "announce env n final acc (u, s1) = (r, u', s2) \<Longrightarrow>
     importResult u' = Some final
   \<and> r = (if success final then fst (onImportSuccess env s1) else None)
   \<and> s2 = (if success final then snd (onImportSuccess env s1) else s1)"
  by (auto simp: announce_def Let_def add_toast_def split: if_splits prod.splits)

lemma handleFilesSelect_nonempty_st:
  assumes "jsonFiles_of files \<noteq> []"
  shows "fst (handleFilesSelect env c sg files st) = Fulfilled
    \<and> isImporting (fst (snd (handleFilesSelect env c sg files st))) = False
    \<and> importResult (fst (snd (handleFilesSelect env c sg files st))) =
           Some (stored_report env (importBatch env c sg (jsonFiles_of files) (snd st)))
    \<and> snd (snd (handleFilesSelect env c sg files st)) =
           (if success (fst (importBatch env c sg (jsonFiles_of files) (snd st)))
            then snd (onImportSuccess env (snd (importBatch env c sg (jsonFiles_of files) (snd st))))
            else snd (importBatch env c sg (jsonFiles_of files) (snd st)))"
proof -
  obtain acc s1 where loop:
    "import_loop env c sg (initial_acc, snd st) (jsonFiles_of files) = (acc, s1)"
    by (cases "import_loop env c sg (initial_acc, snd st) (jsonFiles_of files)")
  let ?final = "finalResult (length (jsonFiles_of files)) acc"
  have batch: "importBatch env c sg (jsonFiles_of files) (snd st) = (?final, s1)"
    by (simp add: importBatch_def loop)
  let ?u2 = "(if length (jsonFiles_of files) \<noteq> length files then
              add_toast (ToastError (to_decimal (length files - length (jsonFiles_of files))
                @ '' non-JSON files were skipped'')) (fst st)
            else fst st)\<lparr>isImporting := True, importResult := None\<rparr>"
  obtain r u3 s2 where ann:
    "announce env (length (jsonFiles_of files)) ?final acc (?u2, s1) = (r, u3, s2)"
    by (cases "announce env (length (jsonFiles_of files)) ?final acc (?u2, s1)")
  note facts = announce_result [OF ann]
  have h: "handleFilesSelect env c sg files st =
      (case r of
         None \<Rightarrow> (Fulfilled, u3\<lparr>isImporting := False\<rparr>, s2)
       | Some e \<Rightarrow>
           (Fulfilled,
            (add_toast (ToastError (''Batch import failed: '' @ errorMessage e)) u3)
              \<lparr>importResult := Some (batch_failed_report e), isImporting := False\<rparr>,
            s2))"
    using assms ann unfolding handleFilesSelect_def Let_def
    by (cases r) (simp_all add: loop split del: if_split)
  show ?thesis
    using facts by (auto simp: h batch stored_report_def add_toast_def split: option.split)
qed

lemma handleFilesSelect_nonempty:
  assumes "jsonFiles_of files \<noteq> []"
  shows "fst (handleFilesSelect env c sg files (u, s)) = Fulfilled"
    and "isImporting (fst (snd (handleFilesSelect env c sg files (u, s)))) = False"
    and "importResult (fst (snd (handleFilesSelect env c sg files (u, s)))) =
           Some (stored_report env (importBatch env c sg (jsonFiles_of files) s))"
    and "snd (snd (handleFilesSelect env c sg files (u, s))) =
           (if success (fst (importBatch env c sg (jsonFiles_of files) s))
            then snd (onImportSuccess env (snd (importBatch env c sg (jsonFiles_of files) s)))
            else snd (importBatch env c sg (jsonFiles_of files) s))"
  using handleFilesSelect_nonempty_st [OF assms, of env c sg "(u, s)"] by simp_all

lemma handleFilesSelect_empty:
  "jsonFiles_of files = [] \<Longrightarrow>
     handleFilesSelect env c sg files (u, s) =
       (Fulfilled, add_toast (ToastError ''Please select at least one JSON file'') u, s)"
  by (simp add: handleFilesSelect_def)

lemma importBatch_success:
  "success (fst (importBatch env c sg files s)) =
     (filter (\<lambda>p. succeeded (snd p)) (source_outcomes env c sg s files) \<noteq> [])"
  by (simp add: importBatch_report finalResult_def fold_successful initial_acc_def)

lemma demo_throwing_success:
  "success (fst (importBatch demo_env_throwing ''c1'' False (jsonFiles_of demo_files) []))"
proof -
  have "source_outcomes demo_env_throwing ''c1'' False [] (jsonFiles_of demo_files) =
     [(demo_files ! 0, Inr (demo_reply 1 0)),
      (demo_files ! 2, Inl (ErrorObject ''Unexpected end of JSON input'')),
      (demo_files ! 3, Inr (demo_reply 0 1))]"
    by (simp add: demo_json)
       (simp add: demo_files_def attempt_def demo_env_throwing_def demo_env_def build_options_def)
  then show ?thesis
    by (simp add: importBatch_success succeeded_def demo_reply_def)
qed

subsection \<open>The batch always ends with a report\<close>

text \<open>
  Claim C7 fails as it is stated. When a source has succeeded and the
  \<^verbatim>\<open>onImportSuccess\<close> callback throws, the outer \<^verbatim>\<open>catch\<close> replaces the report of
  the batch by one without file lists and with zero counts.
\<close>

theorem batch_report_replaced_counterexample:
  "jsonFiles_of demo_files \<noteq> []
   \<and> importResult (fst (snd (handleFilesSelect demo_env_throwing ''c1'' False demo_files (demo_ui, [])))) =
       Some \<lparr>success = False, message = ''Batch import failed: reload failed'',
             importedCount = 0, skippedCount = 0, errors = Some [''reload failed''],
             successfulFiles = None, failedFiles = None\<rparr>"
proof -
  have h1: "jsonFiles_of demo_files \<noteq> []" by (simp add: demo_json)
  have h3: "fst (onImportSuccess demo_env_throwing s') = Some (ErrorObject ''reload failed'')" for s'
    by (simp add: demo_env_throwing_def)
  show ?thesis
    using h1 h3 demo_throwing_success
    by (simp add: handleFilesSelect_nonempty [OF h1] stored_report_def batch_failed_report_def
        errorMessage_def)
qed

text \<open>
  Claim C7, as amended. No failure of a source reaches the caller of the batch import.
  Whenever the selection holds at least one JSON file, and whatever reading, parsing,
  importing or recording any of the sources does (return or throw), the promise of the
  handler is fulfilled, the importing flag is cleared, and \<^verbatim>\<open>importResult\<close> holds a
  report with an error list. That report is the report of the batch, with its totals,
  its errors and both file lists, unless a source succeeded and the
  \<^verbatim>\<open>onImportSuccess\<close> callback threw; in that case it is the report of the outer
  \<^verbatim>\<open>catch\<close>, which has no file lists.
\<close>

theorem batch_always_reports:
  assumes "jsonFiles_of files \<noteq> []"
  shows "fst (handleFilesSelect env c sg files (u, s)) = Fulfilled
     \<and> isImporting (fst (snd (handleFilesSelect env c sg files (u, s)))) = False
     \<and> (\<exists>r errs. importResult (fst (snd (handleFilesSelect env c sg files (u, s)))) = Some r
                \<and> errors r = Some errs)
     \<and> ((success (fst (importBatch env c sg (jsonFiles_of files) s)) \<longrightarrow>
           fst (onImportSuccess env (snd (importBatch env c sg (jsonFiles_of files) s))) = None)
        \<longrightarrow> importResult (fst (snd (handleFilesSelect env c sg files (u, s)))) =
               Some (fst (importBatch env c sg (jsonFiles_of files) s))
          \<and> (\<exists>ok bad errs.
                 successfulFiles (fst (importBatch env c sg (jsonFiles_of files) s)) = Some ok
               \<and> failedFiles (fst (importBatch env c sg (jsonFiles_of files) s)) = Some bad
               \<and> errors (fst (importBatch env c sg (jsonFiles_of files) s)) = Some errs))
     \<and> (\<forall>e. success (fst (importBatch env c sg (jsonFiles_of files) s))
            \<and> fst (onImportSuccess env (snd (importBatch env c sg (jsonFiles_of files) s))) = Some e
        \<longrightarrow> importResult (fst (snd (handleFilesSelect env c sg files (u, s)))) =
               Some (batch_failed_report e)
          \<and> successfulFiles (batch_failed_report e) = None
          \<and> failedFiles (batch_failed_report e) = None)"
proof -
  let ?b = "importBatch env c sg (jsonFiles_of files) s"
  have e1: "\<exists>errs. errors (stored_report env ?b) = Some errs"
    by (simp add: stored_report_def importBatch_errors batch_failed_report_def split: option.split)
  have e2: "stored_report env ?b = fst ?b"
    if "success (fst ?b) \<longrightarrow> fst (onImportSuccess env (snd ?b)) = None"
    using that by (auto simp: stored_report_def)
  have e3: "stored_report env ?b = batch_failed_report e"
    if "success (fst ?b)" "fst (onImportSuccess env (snd ?b)) = Some e" for e
    using that by (simp add: stored_report_def)
  show ?thesis
    using e1 e2 e3
    by (simp add: handleFilesSelect_nonempty [OF assms] importBatch_successfulFiles
        importBatch_failedFiles importBatch_errors batch_failed_report_def)
qed

theorem batch_always_reports_witness:
  "jsonFiles_of demo_files \<noteq> []
   \<and> fst (onImportSuccess demo_env (snd (importBatch demo_env ''c1'' False (jsonFiles_of demo_files) []))) = None
   \<and> fst (handleFilesSelect demo_env ''c1'' False demo_files (demo_ui, [])) = Fulfilled
   \<and> importResult (fst (snd (handleFilesSelect demo_env ''c1'' False demo_files (demo_ui, [])))) =
       Some (fst (importBatch demo_env ''c1'' False (jsonFiles_of demo_files) []))
   \<and> failedFiles (fst (importBatch demo_env ''c1'' False (jsonFiles_of demo_files) []))
       = Some [''two.json'']
   \<and> success (fst (importBatch demo_env_throwing ''c1'' False (jsonFiles_of demo_files) []))
   \<and> fst (onImportSuccess demo_env_throwing
         (snd (importBatch demo_env_throwing ''c1'' False (jsonFiles_of demo_files) [])))
       = Some (ErrorObject ''reload failed'')
   \<and> importResult (fst (snd (handleFilesSelect demo_env_throwing ''c1'' False demo_files (demo_ui, [])))) =
       Some (batch_failed_report (ErrorObject ''reload failed''))"
proof -
  have h1: "jsonFiles_of demo_files \<noteq> []" by (simp add: demo_json)
  have h2: "fst (onImportSuccess demo_env s') = None" for s'
    by (simp add: demo_env_def)
  have h3: "fst (onImportSuccess demo_env_throwing s') = Some (ErrorObject ''reload failed'')" for s'
    by (simp add: demo_env_throwing_def)
  show ?thesis
    using batch_always_reports [OF h1, of demo_env "''c1''" False demo_ui "[]"]
      batch_always_reports [OF h1, of demo_env_throwing "''c1''" False demo_ui "[]"]
      h1 h2 h3 demo_batch(2) demo_throwing_success
    by simp
qed

subsection \<open>Files that are not JSON\<close>

text \<open>
  Claim C10. Files whose MIME type does not contain \<^verbatim>\<open>json\<close> are removed before
  anything is processed: the report stored and the outside state left by the handler are
  those of the handler run on the JSON files alone, the sources the loop processes are
  exactly the JSON files, and no file of another type is among them. When no selected
  file is a JSON file, the handler only raises an error toast: nothing is imported (the
  outside state is untouched) and \<^verbatim>\<open>importResult\<close> is not written.
\<close>

theorem non_json_files_are_filtered_out:
  "(jsonFiles_of files = [] \<longrightarrow>
      handleFilesSelect env c sg files (u, s) =
        (Fulfilled, add_toast (ToastError ''Please select at least one JSON file'') u, s))
   \<and> importResult (fst (snd (handleFilesSelect env c sg files (u, s)))) =
       importResult (fst (snd (handleFilesSelect env c sg (jsonFiles_of files) (u, s))))
   \<and> snd (snd (handleFilesSelect env c sg files (u, s))) =
       snd (snd (handleFilesSelect env c sg (jsonFiles_of files) (u, s)))
   \<and> map fst (source_outcomes env c sg s (jsonFiles_of files)) = jsonFiles_of files
   \<and> (\<forall>f \<in> set files. \<not> String_includes (file_type f) ''json'' \<longrightarrow> f \<notin> set (jsonFiles_of files))"
proof (cases "jsonFiles_of files = []")
  case True
  have "jsonFiles_of [] = []"
    by (simp add: jsonFiles_of_def)
  then have "handleFilesSelect env c sg [] (u, s) =
      (Fulfilled, add_toast (ToastError ''Please select at least one JSON file'') u, s)"
    by (rule handleFilesSelect_empty)
  with True show ?thesis
    by (simp add: handleFilesSelect_empty source_outcomes_files)
next
  case False
  then have "jsonFiles_of (jsonFiles_of files) \<noteq> []"
    by (simp add: jsonFiles_of_idem)
  then show ?thesis
    using False
    by (simp add: handleFilesSelect_nonempty jsonFiles_of_idem source_outcomes_files)
       (simp add: jsonFiles_of_def)
qed

theorem non_json_files_are_filtered_out_witness:
  "jsonFiles_of [demo_files ! 1] = []
   \<and> handleFilesSelect demo_env ''c1'' False [demo_files ! 1] (demo_ui, []) =
       (Fulfilled, add_toast (ToastError ''Please select at least one JSON file'') demo_ui, [])
   \<and> demo_files ! 1 \<in> set demo_files
   \<and> \<not> String_includes (file_type (demo_files ! 1)) ''json''
   \<and> demo_files ! 1 \<notin> set (jsonFiles_of demo_files)
   \<and> importResult (fst (snd (handleFilesSelect demo_env ''c1'' False demo_files (demo_ui, [])))) =
       importResult (fst (snd (handleFilesSelect demo_env ''c1'' False (jsonFiles_of demo_files) (demo_ui, []))))"
proof -
  have h1: "jsonFiles_of [demo_files ! 1] = []"
    by (simp add: jsonFiles_of_def demo_files_def)
  have h2: "demo_files ! 1 \<in> set demo_files"
    by (simp add: demo_files_def)
  have h3: "\<not> String_includes (file_type (demo_files ! 1)) ''json''"
    by (simp add: demo_files_def)
  show ?thesis
    using non_json_files_are_filtered_out [of "[demo_files ! 1]" demo_env "''c1''" False demo_ui "[]"]
      non_json_files_are_filtered_out [of demo_files demo_env "''c1''" False demo_ui "[]"]
      h1 h2 h3
    by blast
qed

section \<open>Properties of the merge engine\<close>

lemma merge_into_append:
  "merge_into r (xs @ ys) = merge_into (merge_into r xs) ys"
  by (induction xs arbitrary: r) simp_all

lemma merge_into_errors: "perEntryErrors (merge_into r es) = perEntryErrors r"
  by (induction es arbitrary: r) simp_all

lemma merge_into_prefix: "prefix (updated r) (updated (merge_into r es))"
proof (induction es arbitrary: r)
  case Nil
  show ?case by simp
next
  case (Cons e es)
  show ?case
  proof (cases "identity_key e \<in> set (map identity_key (updated r))")
    case True
    then show ?thesis
      using Cons.IH [of "r\<lparr>merge_skippedCount := merge_skippedCount r + 1\<rparr>"] by simp
  next
    case False
    then show ?thesis
      using Cons.IH [of "r\<lparr>updated := updated r @ [e],
          merge_importedCount := merge_importedCount r + 1\<rparr>"]
      by (auto dest: append_prefixD)
  qed
qed

lemma merge_into_keys:
  "set (keys_of (updated (merge_into r es))) = set (keys_of (updated r)) \<union> set (keys_of es)"
  by (induction es arbitrary: r) (auto simp: keys_of_def)

lemma merge_into_distinct:
  "distinct (keys_of (updated r)) \<Longrightarrow> distinct (keys_of (updated (merge_into r es)))"
  by (induction es arbitrary: r) (auto simp: keys_of_def)

lemma merge_into_all_present:
  "set (keys_of es) \<subseteq> set (keys_of (updated r)) \<Longrightarrow>
     merge_into r es = r\<lparr>merge_skippedCount := merge_skippedCount r + length es\<rparr>"
  by (induction es arbitrary: r) (auto simp: keys_of_def)

lemma merge_into_skipped_shift:
  "merge_into (r\<lparr>merge_skippedCount := merge_skippedCount r + n\<rparr>) es =
     (merge_into r es)\<lparr>merge_skippedCount := merge_skippedCount (merge_into r es) + n\<rparr>"
proof (induction es arbitrary: r)
  case Nil
  show ?case by simp
next
  case (Cons e es)
  obtain u i k p m where r: "r = \<lparr>updated = u, merge_importedCount = i, merge_skippedCount = k,
      perEntryErrors = p, \<dots> = m\<rparr>"
    by (cases r)
  show ?case
  proof (cases "identity_key e \<in> set (map identity_key u)")
    case True
    then show ?thesis
      using Cons.IH [of "\<lparr>updated = u, merge_importedCount = i, merge_skippedCount = k + 1,
      perEntryErrors = p, \<dots> = m\<rparr>"]
      by (simp add: r add.commute add.left_commute)
  next
    case False
    then show ?thesis
      using Cons.IH [of "\<lparr>updated = u @ [e], merge_importedCount = i + 1, merge_skippedCount = k,
      perEntryErrors = p, \<dots> = m\<rparr>"]
      by (simp add: r)
  qed
qed

lemma merge_into_counts:
  "merge_importedCount (merge_into r es) + merge_skippedCount (merge_into r es) =
     merge_importedCount r + merge_skippedCount r + length es
   \<and> length (updated (merge_into r es)) + merge_importedCount r =
     length (updated r) + merge_importedCount (merge_into r es)"
proof (induction es arbitrary: r)
  case Nil
  show ?case by simp
next
  case (Cons e es)
  show ?case
  proof (cases "identity_key e \<in> set (map identity_key (updated r))")
    case True
    then show ?thesis
      using Cons.IH [of "r\<lparr>merge_skippedCount := merge_skippedCount r + 1\<rparr>"] by simp
  next
    case False
    then show ?thesis
      using Cons.IH [of "r\<lparr>updated := updated r @ [e],
          merge_importedCount := merge_importedCount r + 1\<rparr>"]
      by simp
  qed
qed

text \<open>
  Claim C5. A merge never overwrites and never fails on a duplicate: the existing
  collection is kept as a prefix of the updated one and no entry-level error is
  produced; an incoming entry whose identity key is already in the collection, or
  occurred earlier in the same bundle, changes nothing but the skip count, which it
  raises by one; every incoming entry is either imported or skipped, and the collection
  grows by the imported ones. Importing the same bundle of \<open>N\<close> entries a second time
  imports 0 and skips \<open>N\<close>, leaving the collection as it is. Identity keys that are
  unique in the collection stay unique.
\<close>

theorem merge_skips_duplicates:
  "prefix existing (updated (merge existing incoming))
   \<and> perEntryErrors (merge existing incoming) = []
   \<and> (identity_key e \<in> set (keys_of existing) \<union> set (keys_of earlier) \<longrightarrow>
        merge existing (earlier @ e # later) =
          (merge existing (earlier @ later))
            \<lparr>merge_skippedCount := merge_skippedCount (merge existing (earlier @ later)) + 1\<rparr>)
   \<and> merge_importedCount (merge existing incoming) + merge_skippedCount (merge existing incoming)
       = length incoming
   \<and> length (updated (merge existing incoming))
       = length existing + merge_importedCount (merge existing incoming)
   \<and> merge (updated (merge existing incoming)) incoming =
       \<lparr>updated = updated (merge existing incoming), merge_importedCount = 0,
        merge_skippedCount = length incoming, perEntryErrors = []\<rparr>
   \<and> (distinct (keys_of existing) \<longrightarrow> distinct (keys_of (updated (merge existing incoming))))"
proof -
  let ?r0 = "\<lparr>updated = existing, merge_importedCount = 0, merge_skippedCount = 0,
              perEntryErrors = []\<rparr> :: ('a, 'b) merge_result"
  have pre: "prefix existing (updated (merge existing incoming))"
    using merge_into_prefix [of ?r0 incoming] by (simp add: merge_def)
  have errs: "perEntryErrors (merge existing incoming) = []"
    by (simp add: merge_def merge_into_errors)
  have dup: "merge existing (earlier @ e # later) =
          (merge existing (earlier @ later))
            \<lparr>merge_skippedCount := merge_skippedCount (merge existing (earlier @ later)) + 1\<rparr>"
    if k: "identity_key e \<in> set (keys_of existing) \<union> set (keys_of earlier)"
  proof -
    let ?m = "merge_into ?r0 earlier"
    have "identity_key e \<in> set (map identity_key (updated ?m))"
      using k merge_into_keys [of ?r0 earlier] by (simp add: keys_of_def)
    then have "merge_into ?m (e # later) =
        merge_into (?m\<lparr>merge_skippedCount := merge_skippedCount ?m + 1\<rparr>) later"
      by simp
    also have "\<dots> = (merge_into ?m later)
        \<lparr>merge_skippedCount := merge_skippedCount (merge_into ?m later) + 1\<rparr>"
      by (rule merge_into_skipped_shift)
    finally show ?thesis
      by (simp only: merge_def merge_into_append)
  qed
  have counts: "merge_importedCount (merge existing incoming)
        + merge_skippedCount (merge existing incoming) = length incoming"
    "length (updated (merge existing incoming))
        = length existing + merge_importedCount (merge existing incoming)"
    using merge_into_counts [of ?r0 incoming] by (simp_all add: merge_def)
  have again: "merge (updated (merge existing incoming)) incoming =
       \<lparr>updated = updated (merge existing incoming), merge_importedCount = 0,
        merge_skippedCount = length incoming, perEntryErrors = []\<rparr>"
  proof -
    have "set (keys_of incoming) \<subseteq> set (keys_of (updated (merge existing incoming)))"
      using merge_into_keys [of ?r0 incoming] by (simp add: merge_def)
    then show ?thesis
      using merge_into_all_present
        [of incoming "\<lparr>updated = updated (merge existing incoming), merge_importedCount = 0,
            merge_skippedCount = 0, perEntryErrors = []\<rparr>"]
      by (simp add: merge_def)
  qed
  have dist: "distinct (keys_of (updated (merge existing incoming)))"
    if "distinct (keys_of existing)"
    using that merge_into_distinct [of ?r0 incoming] by (simp add: merge_def)
  show ?thesis
    using pre errs dup counts again dist by blast
qed

theorem merge_skips_duplicates_witness:
  "identity_key (AssetEntry ''a'' ''x'') \<in> set (keys_of [AssetEntry ''a'' ''x'']) \<union> set (keys_of [])
   \<and> distinct (keys_of [AssetEntry ''a'' ''x''])
   \<and> merge [AssetEntry ''a'' ''x''] [AssetEntry ''a'' ''x'', AssetEntry ''b'' ''y''] =
       \<lparr>updated = [AssetEntry ''a'' ''x'', AssetEntry ''b'' ''y''], merge_importedCount = 1,
        merge_skippedCount = 1, perEntryErrors = []\<rparr>
   \<and> merge [AssetEntry ''a'' ''x'', AssetEntry ''b'' ''y''] [AssetEntry ''a'' ''x'', AssetEntry ''b'' ''y''] =
       \<lparr>updated = [AssetEntry ''a'' ''x'', AssetEntry ''b'' ''y''], merge_importedCount = 0,
        merge_skippedCount = 2, perEntryErrors = []\<rparr>
   \<and> distinct (keys_of (updated (merge [AssetEntry ''a'' ''x''] [AssetEntry ''a'' ''x'', AssetEntry ''b'' ''y''])))"
proof -
  have m: "merge [AssetEntry ''a'' ''x''] [AssetEntry ''a'' ''x'', AssetEntry ''b'' ''y''] =
       \<lparr>updated = [AssetEntry ''a'' ''x'', AssetEntry ''b'' ''y''], merge_importedCount = 1,
        merge_skippedCount = 1, perEntryErrors = []\<rparr>"
    by (simp add: merge_def)
  have h1: "identity_key (AssetEntry ''a'' ''x'') \<in> set (keys_of [AssetEntry ''a'' ''x'']) \<union> set (keys_of [])"
    by (simp add: keys_of_def)
  have h2: "distinct (keys_of [AssetEntry ''a'' ''x''])"
    by (simp add: keys_of_def)
  show ?thesis
    using merge_skips_duplicates [of "[AssetEntry ''a'' ''x'']"
        "[AssetEntry ''a'' ''x'', AssetEntry ''b'' ''y'']" "AssetEntry ''a'' ''x''" "[]"
        "[AssetEntry ''b'' ''y'']"] h1 h2
    by (simp add: m)
qed

section \<open>Properties of the import from the global library\<close>

lemma global_handler_report:
  assumes sel: "selectedGlobalId \<noteq> []"
    and imp: "importer c selectedGlobalId (snd st) = (Inr result, s1)"
    and ok: "success result"
    and quiet: "\<And>m v. importResult (show_error m v) = importResult v"
  shows "importResult (fst (snd (global_handler importer show_error prompt env c selectedGlobalId st))) =
           Some (global_report result)"
proof -
  obtain r s2 where cb: "onImportSuccess env s1 = (r, s2)"
    by (cases "onImportSuccess env s1")
  have t: "global_try importer show_error env c selectedGlobalId
             ((fst st)\<lparr>isImporting := True\<rparr>, snd st) =
           (r, add_toast (ToastSuccess (message result))
                 ((fst st)\<lparr>isImporting := True, importResult := Some (global_report result)\<rparr>), s2)"
    by (simp add: global_try_def imp ok cb)
  show ?thesis
    using sel
    by (cases r; cases "rendered_message (the r)")
       (simp_all add: global_handler_def t add_toast_def quiet)
qed

lemma importFromGlobal_found:
  assumes "library st g = Some bundle"
  shows "importFromGlobal describe g c st =
     (Inr \<lparr>success = True,
           message = describe (merge_importedCount (merge (collections st c) bundle))
                       (merge_skippedCount (merge (collections st c) bundle)),
           importedCount = int (merge_importedCount (merge (collections st c) bundle)),
           skippedCount = int (merge_skippedCount (merge (collections st c) bundle)),
           errors = Some [],
           successfulFiles = None,
           failedFiles = None\<rparr>,
      st\<lparr>collections := (collections st)(c := updated (merge (collections st c) bundle))\<rparr>)"
  using assms by (simp add: importFromGlobal_def Let_def merge_def merge_into_errors)

text \<open>
  Claim C3 fails as it is stated. Character \<^verbatim>\<open>c1\<close> owns entry \<^verbatim>\<open>a\<close>; library item
  \<^verbatim>\<open>g1\<close> holds \<^verbatim>\<open>a\<close> and \<^verbatim>\<open>b\<close>. The library import of the specification skips
  \<^verbatim>\<open>a\<close> and returns a report with one skipped entry; the report the handler stores
  says zero.
\<close>

theorem global_import_skipped_count_counterexample:
  "fst (importFromGlobalRegexScript demo_library_env ''c1'' ''g1'' demo_stores) =
     Inr \<lparr>success = True, message = ''imported'', importedCount = 1, skippedCount = 1,
          errors = Some [], successfulFiles = None, failedFiles = None\<rparr>
   \<and> merge_skippedCount
         (merge (collections demo_stores ''c1'') [AssetEntry ''a'' ''x'', AssetEntry ''b'' ''y'']) = 1
   \<and> fst (handleImportFromGlobal demo_library_env ''c1'' ''g1'' (demo_ui, demo_stores)) = Fulfilled
   \<and> importResult (fst (snd (handleImportFromGlobal demo_library_env ''c1'' ''g1''
         (demo_ui, demo_stores)))) =
       Some \<lparr>success = True, message = ''imported'', importedCount = 1, skippedCount = 0,
             errors = Some [], successfulFiles = None, failedFiles = None\<rparr>"
proof -
  have m: "merge (collections demo_stores ''c1'') [AssetEntry ''a'' ''x'', AssetEntry ''b'' ''y''] =
       \<lparr>updated = [AssetEntry ''a'' ''x'', AssetEntry ''b'' ''y''], merge_importedCount = 1,
        merge_skippedCount = 1, perEntryErrors = []\<rparr>"
    by (simp add: merge_def demo_stores_def)
  have lib: "library demo_stores ''g1'' = Some [AssetEntry ''a'' ''x'', AssetEntry ''b'' ''y'']"
    by (simp add: demo_stores_def)
  have i: "importFromGlobal (\<lambda>i k. ''imported'') ''g1'' ''c1'' demo_stores =
      (Inr \<lparr>success = True, message = ''imported'', importedCount = 1, skippedCount = 1,
            errors = Some [], successfulFiles = None, failedFiles = None\<rparr>,
       demo_stores\<lparr>collections := (collections demo_stores)
         (''c1'' := [AssetEntry ''a'' ''x'', AssetEntry ''b'' ''y''])\<rparr>)"
    by (simp add: importFromGlobal_def lib m Let_def)
  have e: "importFromGlobalRegexScript demo_library_env ''c1'' ''g1'' demo_stores =
      importFromGlobal (\<lambda>i k. ''imported'') ''g1'' ''c1'' demo_stores"
    "onImportSuccess demo_library_env = (\<lambda>s. (None, s))"
    by (simp_all add: demo_library_env_def)
  show ?thesis
    by (simp add: m e i handleImportFromGlobal_def global_handler_def global_try_def
        global_report_def add_toast_def demo_ui_def)
qed

text \<open>
  Claim C3, as amended. When the library import of the specification stands behind a
  modal and the selected item exists, the import succeeds, and the report the handler
  stores is a single-source report without \<^verbatim>\<open>successfulFiles\<close> and
  \<^verbatim>\<open>failedFiles\<close> whose \<^verbatim>\<open>importedCount\<close> is the number of entries imported by
  the merge of the stored bundle into the collection of the character. The report
  returned by the library import carries the number of skipped entries of that merge as
  well; the report stored by the handler has \<^verbatim>\<open>skippedCount\<close> 0 instead. Whatever
  import function stands behind a modal, the stored report copies the message and the
  \<^verbatim>\<open>importedCount\<close> of the report returned and has \<^verbatim>\<open>skippedCount\<close> 0 and no
  file lists.
\<close>

theorem global_import_report:
  "(selectedGlobalId \<noteq> []
      \<and> importFromGlobalRegexScript env c selectedGlobalId st =
          importFromGlobal describe selectedGlobalId c st
      \<and> library st selectedGlobalId = Some bundle
    \<longrightarrow> fst (importFromGlobalRegexScript env c selectedGlobalId st) =
          Inr \<lparr>success = True,
               message = describe (merge_importedCount (merge (collections st c) bundle))
                           (merge_skippedCount (merge (collections st c) bundle)),
               importedCount = int (merge_importedCount (merge (collections st c) bundle)),
               skippedCount = int (merge_skippedCount (merge (collections st c) bundle)),
               errors = Some [], successfulFiles = None, failedFiles = None\<rparr>
      \<and> importResult (fst (snd (handleImportFromGlobal env c selectedGlobalId (u, st)))) =
          Some \<lparr>success = True,
                message = describe (merge_importedCount (merge (collections st c) bundle))
                            (merge_skippedCount (merge (collections st c) bundle)),
                importedCount = int (merge_importedCount (merge (collections st c) bundle)),
                skippedCount = 0,
                errors = Some [], successfulFiles = None, failedFiles = None\<rparr>)
   \<and> (selectedGlobalId \<noteq> []
      \<and> importFromGlobalWorldBook env c selectedGlobalId st =
          importFromGlobal describe selectedGlobalId c st
      \<and> library st selectedGlobalId = Some bundle
    \<longrightarrow> importResult (fst (snd (handleImportFromGlobal_worldbook env c selectedGlobalId (u, st)))) =
          Some \<lparr>success = True,
                message = describe (merge_importedCount (merge (collections st c) bundle))
                            (merge_skippedCount (merge (collections st c) bundle)),
                importedCount = int (merge_importedCount (merge (collections st c) bundle)),
                skippedCount = 0,
                errors = Some [], successfulFiles = None, failedFiles = None\<rparr>)
   \<and> (selectedGlobalId \<noteq> []
      \<and> importFromGlobalRegexScript env c selectedGlobalId s = (Inr result, s1)
      \<and> success result \<longrightarrow>
        importResult (fst (snd (handleImportFromGlobal env c selectedGlobalId (v, s)))) =
          Some (global_report result))
   \<and> (selectedGlobalId \<noteq> []
      \<and> importFromGlobalWorldBook env c selectedGlobalId s = (Inr result, s1)
      \<and> success result \<longrightarrow>
        importResult (fst (snd (handleImportFromGlobal_worldbook env c selectedGlobalId (v, s)))) =
          Some (global_report result))
   \<and> importedCount (global_report result) = importedCount result
   \<and> skippedCount (global_report result) = 0
   \<and> successfulFiles (global_report result) = None
   \<and> failedFiles (global_report result) = None"
proof -
  have regex: "importResult (fst (snd (handleImportFromGlobal env c selectedGlobalId (w, t)))) =
          Some (global_report r)"
    if "selectedGlobalId \<noteq> []"
      and "importFromGlobalRegexScript env c selectedGlobalId t = (Inr r, t1)"
      and "success r" for w t r t1
    unfolding handleImportFromGlobal_def
    by (rule global_handler_report [where ?s1.0 = t1]) (use that in \<open>simp_all add: add_toast_def\<close>)
  have book: "importResult (fst (snd (handleImportFromGlobal_worldbook env c selectedGlobalId (w, t)))) =
          Some (global_report r)"
    if "selectedGlobalId \<noteq> []"
      and "importFromGlobalWorldBook env c selectedGlobalId t = (Inr r, t1)"
      and "success r" for w t r t1
    unfolding handleImportFromGlobal_worldbook_def
    by (rule global_handler_report [where ?s1.0 = t1]) (use that in \<open>simp_all add: showErrorToast_def\<close>)
  have lib1: "fst (importFromGlobalRegexScript env c selectedGlobalId st) =
          Inr \<lparr>success = True,
               message = describe (merge_importedCount (merge (collections st c) bundle))
                           (merge_skippedCount (merge (collections st c) bundle)),
               importedCount = int (merge_importedCount (merge (collections st c) bundle)),
               skippedCount = int (merge_skippedCount (merge (collections st c) bundle)),
               errors = Some [], successfulFiles = None, failedFiles = None\<rparr>
      \<and> importResult (fst (snd (handleImportFromGlobal env c selectedGlobalId (u, st)))) =
          Some \<lparr>success = True,
                message = describe (merge_importedCount (merge (collections st c) bundle))
                            (merge_skippedCount (merge (collections st c) bundle)),
                importedCount = int (merge_importedCount (merge (collections st c) bundle)),
                skippedCount = 0,
                errors = Some [], successfulFiles = None, failedFiles = None\<rparr>"
    if sel: "selectedGlobalId \<noteq> []"
      and eq: "importFromGlobalRegexScript env c selectedGlobalId st =
          importFromGlobal describe selectedGlobalId c st"
      and lib: "library st selectedGlobalId = Some bundle"
    using regex [OF sel, of st _ _ u] eq importFromGlobal_found [OF lib, of describe c]
    by (simp add: global_report_def)
  have lib2: "importResult (fst (snd (handleImportFromGlobal_worldbook env c selectedGlobalId (u, st)))) =
          Some \<lparr>success = True,
                message = describe (merge_importedCount (merge (collections st c) bundle))
                            (merge_skippedCount (merge (collections st c) bundle)),
                importedCount = int (merge_importedCount (merge (collections st c) bundle)),
                skippedCount = 0,
                errors = Some [], successfulFiles = None, failedFiles = None\<rparr>"
    if sel: "selectedGlobalId \<noteq> []"
      and eq: "importFromGlobalWorldBook env c selectedGlobalId st =
          importFromGlobal describe selectedGlobalId c st"
      and lib: "library st selectedGlobalId = Some bundle"
    using book [OF sel, of st _ _ u] eq importFromGlobal_found [OF lib, of describe c]
    by (simp add: global_report_def)
  show ?thesis
    using regex [of s result s1 v] book [of s result s1 v] lib1 lib2
    by (simp add: global_report_def)
qed

theorem global_import_report_witness:
  "''g1'' \<noteq> []
   \<and> importFromGlobalRegexScript demo_library_env ''c1'' ''g1'' demo_stores =
       importFromGlobal (\<lambda>i k. ''imported'') ''g1'' ''c1'' demo_stores
   \<and> importFromGlobalWorldBook demo_library_env ''c1'' ''g1'' demo_stores =
       importFromGlobal (\<lambda>i k. ''imported'') ''g1'' ''c1'' demo_stores
   \<and> library demo_stores ''g1'' = Some [AssetEntry ''a'' ''x'', AssetEntry ''b'' ''y'']
   \<and> merge_importedCount (merge (collections demo_stores ''c1'')
         [AssetEntry ''a'' ''x'', AssetEntry ''b'' ''y'']) = 1
   \<and> fst (importFromGlobalRegexScript demo_library_env ''c1'' ''g1'' demo_stores) =
       Inr \<lparr>success = True, message = ''imported'', importedCount = 1, skippedCount = 1,
            errors = Some [], successfulFiles = None, failedFiles = None\<rparr>
   \<and> success \<lparr>success = True, message = ''imported'', importedCount = 1, skippedCount = 1,
            errors = Some [], successfulFiles = None, failedFiles = None\<rparr>
   \<and> importResult (fst (snd (handleImportFromGlobal demo_library_env ''c1'' ''g1''
         (demo_ui, demo_stores)))) =
       Some \<lparr>success = True, message = ''imported'', importedCount = 1, skippedCount = 0,
             errors = Some [], successfulFiles = None, failedFiles = None\<rparr>
   \<and> importResult (fst (snd (handleImportFromGlobal_worldbook demo_library_env ''c1'' ''g1''
         (demo_ui, demo_stores)))) =
       Some \<lparr>success = True, message = ''imported'', importedCount = 1, skippedCount = 0,
             errors = Some [], successfulFiles = None, failedFiles = None\<rparr>"
proof -
  have e: "importFromGlobalRegexScript demo_library_env ''c1'' ''g1'' demo_stores =
       importFromGlobal (\<lambda>i k. ''imported'') ''g1'' ''c1'' demo_stores"
    "importFromGlobalWorldBook demo_library_env ''c1'' ''g1'' demo_stores =
       importFromGlobal (\<lambda>i k. ''imported'') ''g1'' ''c1'' demo_stores"
    by (simp_all add: demo_library_env_def)
  have lib: "library demo_stores ''g1'' = Some [AssetEntry ''a'' ''x'', AssetEntry ''b'' ''y'']"
    by (simp add: demo_stores_def)
  have m: "merge (collections demo_stores ''c1'') [AssetEntry ''a'' ''x'', AssetEntry ''b'' ''y''] =
       \<lparr>updated = [AssetEntry ''a'' ''x'', AssetEntry ''b'' ''y''], merge_importedCount = 1,
        merge_skippedCount = 1, perEntryErrors = []\<rparr>"
    by (simp add: merge_def demo_stores_def)
  have a: "''g1'' \<noteq> []" by simp
  show ?thesis
    using global_import_report
      [of "''g1''" demo_library_env "''c1''" demo_stores "\<lambda>i k. ''imported''"
        "[AssetEntry ''a'' ''x'', AssetEntry ''b'' ''y'']" demo_ui] a e lib
    by (simp add: m)
qed

end
